theory Spec2Isabelle
  imports Complex_Main
begin

section \<open>Errors and JavaScript values\<close>

text \<open>
  Every \<^verbatim>\<open>throw\<close> of the sources is a value of \<open>error\<close>. \<open>PluginError\<close> carries the
  message (the plugin name, imported from the plugin's index module, is left out);
  \<open>Error\<close> is the plain JavaScript \<^verbatim>\<open>Error\<close>; \<open>TypeError\<close> is what the runtime raises when
  a property of \<^verbatim>\<open>undefined\<close> is read; \<open>SyntaxError\<close> is what \<^verbatim>\<open>JSON.parse\<close> raises.
\<close>

datatype error =
    PluginError string
  | Error string
  | TypeError string
  | SyntaxError string

text \<open>The values \<^verbatim>\<open>JSON.parse\<close> returns and \<^verbatim>\<open>JSON.stringify\<close> accepts.\<close>

datatype js_value =
    JSNull
  | JSBoolean bool
  | JSNumber real
  | JSString string
  | JSArray "js_value list"
  | JSObject "(string \<times> js_value) list"

text \<open>JavaScript truthiness of a value (\<^verbatim>\<open>if (v)\<close>).\<close>

fun truthy :: "js_value \<Rightarrow> bool" where
  "truthy JSNull = False"
| "truthy (JSBoolean b) = b"
| "truthy (JSNumber n) = (n \<noteq> 0)"
| "truthy (JSString s) = (s \<noteq> [])"
| "truthy (JSArray _) = True"
| "truthy (JSObject _) = True"

section \<open>Runtime helper: \<^verbatim>\<open>getIdFields\<close>\<close>

text \<open>
  \<^verbatim>\<open>lowerCaseFirst\<close> of the package \<^verbatim>\<open>lower-case-first\<close>: the first character in lower
  case, the rest unchanged. Characters are bytes here, so only the ASCII letters change.
\<close>

definition toLowerCase_char :: "char \<Rightarrow> char" where
  "toLowerCase_char c =
     (let n = (of_char c :: nat) in if 65 \<le> n \<and> n \<le> 90 then char_of (n + 32) else c)"

fun lowerCaseFirst :: "string \<Rightarrow> string" where
  "lowerCaseFirst [] = []"
| "lowerCaseFirst (c # cs) = toLowerCase_char c # cs"

text \<open>
  The model metadata (its declaration is in the runtime's \<^verbatim>\<open>cross\<close> module): \<^verbatim>\<open>fields\<close>
  maps a lower-case-first model name to that model's field table, an object whose values
  \<^verbatim>\<open>Object.values\<close> lists in insertion order. Of a field only \<^verbatim>\<open>isId\<close> is read here.
\<close>

record FieldInfo =
  fieldName :: string
  isId :: bool

record ModelMeta =
  meta_fields :: "string \<rightharpoonup> (string \<times> FieldInfo) list"

definition Object_values :: "(string \<times> 'a) list \<Rightarrow> 'a list" where
  "Object_values obj = map snd obj"

definition getIdFields :: "ModelMeta \<Rightarrow> string \<Rightarrow> bool \<Rightarrow> error + FieldInfo list" where
  "getIdFields modelMeta model throwIfNotFound =
     (case meta_fields modelMeta (lowerCaseFirst model) of
        None \<Rightarrow>
          if throwIfNotFound then Inl (Error (''Unable to load fields for '' @ model))
          else
            (let result = filter isId (Object_values []) in
             if length result = 0 \<and> throwIfNotFound
             then Inl (Error (''model '' @ model @ '' does not have an id field''))
             else Inr result)
      | Some fs \<Rightarrow>
          (let result = filter isId (Object_values fs) in
           if length result = 0 \<and> throwIfNotFound
           then Inl (Error (''model '' @ model @ '' does not have an id field''))
           else Inr result))"

section \<open>Source AST\<close>

text \<open>
  An attribute declaration has a name and its own (internal) attributes; an internal
  attribute refers to the declaration of a meta-attribute such as \<^verbatim>\<open>@@@prisma\<close>. A
  reference is \<open>None\<close> while unresolved (\<^verbatim>\<open>ref\<close> is \<^verbatim>\<open>undefined\<close>).
\<close>

datatype Attribute =
  Attribute (decl_name: string) (decl_attributes: "InternalAttribute list")
and InternalAttribute =
  InternalAttribute (ia_decl: "Attribute option")

datatype LiteralExpr =
    StringLiteral string
  | NumberLiteral real
  | BooleanLiteral bool

text \<open>
  Expressions. \<open>OtherExpr t es\<close> stands for the node kinds the generator has no case
  for (binary, unary, member access, object, this): \<open>t\<close> is the node's \<^verbatim>\<open>$type\<close> and
  \<open>es\<close> its child expressions. The target of a reference and the function of an
  invocation are references to declarations, of which only the name is read.
\<close>

datatype FunctionDecl = FunctionDecl (func_name: string)

datatype ReferenceArg = ReferenceArg (refarg_name: string) (refarg_value: string)

datatype Expression =
    Literal LiteralExpr
  | ArrayExpr "Expression list"
  | ReferenceExpr "string option" "ReferenceArg list"
  | InvocationExpr "FunctionDecl option" "Argument list"
  | NullExpr
  | OtherExpr string "Expression list"
and Argument =
  Argument (arg_name: "string option") (arg_value: Expression)

datatype AttributeArg =
  AttributeArg (attrarg_name: "string option") (attrarg_value: Expression)

text \<open>
  An attribute instance, on a model or enum (\<^verbatim>\<open>DataModelAttribute\<close>) or on a field
  (\<^verbatim>\<open>DataModelFieldAttribute\<close>): the reference to its declaration and its arguments.
\<close>

datatype DataModelAttribute =
  DataModelAttribute (attr_decl: "Attribute option") (attr_args: "AttributeArg list")

type_synonym DataModelFieldAttribute = DataModelAttribute

text \<open>
  A field's type: the scalar type name (\<^verbatim>\<open>type\<close>), or a reference to a declared type of
  which the resolved declaration's name is read (\<^verbatim>\<open>reference?.ref?.name\<close>: the reference
  may be absent, and present but unresolved), or the \<^verbatim>\<open>Unsupported\<close> escape.
\<close>

datatype UnsupportedFieldType = UnsupportedFieldType (unsupported_value: Expression)

datatype DataModelFieldType =
  DataModelFieldType
    (ft_type: "string option")
    (ft_reference: "string option option")
    (ft_unsupported: "UnsupportedFieldType option")
    (ft_array: bool)
    (ft_optional: bool)

text \<open>\<open>field_container\<close> is \<^verbatim>\<open>field.$container.name\<close>.\<close>

datatype DataModelField =
  DataModelField
    (field_name: string)
    (field_type: DataModelFieldType)
    (field_attributes: "DataModelFieldAttribute list")
    (field_comments: "string list")
    (field_container: string)

datatype DataModel =
  DataModel
    (dm_name: string)
    (dm_fields: "DataModelField list")
    (dm_attributes: "DataModelAttribute list")
    (dm_comments: "string list")
    (dm_isView: bool)

datatype EnumField =
  EnumField (ef_name: string) (ef_attributes: "DataModelFieldAttribute list")

datatype Enum =
  Enum
    (en_name: string)
    (en_fields: "EnumField list")
    (en_attributes: "DataModelAttribute list")
    (en_comments: "string list")

text \<open>
  Configuration expressions of data sources and generators: a literal, an invocation, or
  an array whose items are literals or named invocations with literal arguments.
\<close>

datatype ConfigInvocationArg =
  ConfigInvocationArg (cia_name: string) (cia_value: LiteralExpr)

datatype ConfigArrayItem =
    ConfigLiteralItem LiteralExpr
  | ConfigInvocationItem string "ConfigInvocationArg list"

datatype ConfigExpr =
    ConfigLiteral LiteralExpr
  | ConfigInvocation "FunctionDecl option" "Argument list"
  | ConfigArrayExpr "ConfigArrayItem list"

datatype ConfigField = ConfigField (cf_name: string) (cf_value: ConfigExpr)

datatype DataSource = DataSource (ds_name: string) (ds_fields: "ConfigField list")

datatype GeneratorDecl = GeneratorDecl (gen_name: string) (gen_fields: "ConfigField list")

text \<open>
  A top-level declaration, by its \<^verbatim>\<open>$type\<close>; \<open>OtherDeclaration\<close> is any declaration the
  driver's \<^verbatim>\<open>switch\<close> has no case for (attribute, function and plugin declarations).
\<close>

datatype AbstractDeclaration =
    DataSourceDeclaration DataSource
  | EnumDeclaration Enum
  | DataModelDeclaration DataModel
  | GeneratorDeclaration GeneratorDecl
  | OtherDeclaration string

datatype Model = Model (declarations: "AbstractDeclaration list")

section \<open>Attribute classifier\<close>

definition MODEL_PASSTHROUGH_ATTR :: string where
  "MODEL_PASSTHROUGH_ATTR = ''@@prisma.passthrough''"

definition FIELD_PASSTHROUGH_ATTR :: string where
  "FIELD_PASSTHROUGH_ATTR = ''@prisma.passthrough''"

definition isPrismaAttribute :: "DataModelAttribute \<Rightarrow> bool" where
  "isPrismaAttribute attr =
     (case attr_decl attr of
        None \<Rightarrow> False
      | Some attrDecl \<Rightarrow>
          find (\<lambda>a. map_option decl_name (ia_decl a) = Some ''@@@prisma'')
               (decl_attributes attrDecl) \<noteq> None
          \<or> decl_name attrDecl = MODEL_PASSTHROUGH_ATTR
          \<or> decl_name attrDecl = FIELD_PASSTHROUGH_ATTR)"

section \<open>Helpers the generator imports\<close>

text \<open>The value a literal node holds (\<^verbatim>\<open>expr.value\<close>).\<close>

fun literal_value :: "LiteralExpr \<Rightarrow> js_value" where
  "literal_value (StringLiteral s) = JSString s"
| "literal_value (NumberLiteral n) = JSNumber n"
| "literal_value (BooleanLiteral b) = JSBoolean b"

text \<open>
  Modelled from the spec: \<^verbatim>\<open>getLiteral\<close> is a helper of the SDK and not among the sources.
  ``A literal-extraction helper: given an expression node, return its scalar literal value
  or undefined.''
\<close>

fun getLiteral :: "Expression \<Rightarrow> js_value option" where
  "getLiteral (Literal l) = Some (literal_value l)"
| "getLiteral _ = None"

text \<open>
  Modelled from the spec: \<^verbatim>\<open>getStringLiteral\<close> is a helper of the language server's
  validator and not among the sources; it is the literal extraction restricted to string
  literals (the raw type name of the ``unsupported'' escape).
\<close>

fun getStringLiteral :: "Expression \<Rightarrow> string option" where
  "getStringLiteral (Literal (StringLiteral s)) = Some s"
| "getStringLiteral _ = None"

text \<open>
  Modelled from the spec: \<^verbatim>\<open>resolved\<close> is a helper of the SDK and not among the sources.
  ``A reference-resolution helper: given a possibly-lazy reference, return the resolved
  declaration''; a reference still unresolved is a hard error.
\<close>

definition resolved :: "'a option \<Rightarrow> error + 'a" where
  "resolved r = (case r of None \<Rightarrow> Inl (Error ''Reference not resolved'') | Some d \<Rightarrow> Inr d)"

text \<open>\<^verbatim>\<open>Array.prototype.map\<close> with a callback that may throw: the first throw ends the map.\<close>

fun mapE :: "('a \<Rightarrow> 'e + 'b) \<Rightarrow> 'a list \<Rightarrow> 'e + 'b list" where
  "mapE f [] = Inr []"
| "mapE f (x # xs) =
     (case f x of
        Inl e \<Rightarrow> Inl e
      | Inr y \<Rightarrow> (case mapE f xs of Inl e \<Rightarrow> Inl e | Inr ys \<Rightarrow> Inr (y # ys)))"

text \<open>\<^verbatim>\<open>Array.prototype.join\<close> on strings.\<close>

fun join :: "string \<Rightarrow> string list \<Rightarrow> string" where
  "join sep [] = []"
| "join sep [x] = x"
| "join sep (x # y # ys) = x @ sep @ join sep (y # ys)"

section \<open>Target object model\<close>

text \<open>
  Modelled from the spec: the builder classes (\<^verbatim>\<open>prisma-builder\<close>) are not among the
  sources. The types below follow the spec's data model: a target attribute is regular
  (name and ordered arguments) or pass-through (opaque text); an argument value is a
  tagged union over String, Number, Boolean, Array, FieldReference and FunctionCall. The
  pass-through text is the value \<^verbatim>\<open>getLiteral\<close> returned, whatever its runtime type.
\<close>

datatype PrismaFunctionCallArg =
  PrismaFunctionCallArg (fcarg_name: "string option") (fcarg_value: string)

datatype PrismaFunctionCall =
  PrismaFunctionCall (fc_func: string) (fc_args: "PrismaFunctionCallArg list")

datatype PrismaFieldReferenceArg = PrismaFieldReferenceArg string string

datatype PrismaFieldReference = PrismaFieldReference string "PrismaFieldReferenceArg list"

datatype PrismaAttributeArgValue =
    AV_String string
  | AV_Number real
  | AV_Boolean bool
  | AV_Array "PrismaAttributeArgValue list"
  | AV_FieldReference PrismaFieldReference
  | AV_FunctionCall PrismaFunctionCall

datatype PrismaAttributeArg =
  PrismaAttributeArg (paa_name: "string option") (paa_value: PrismaAttributeArgValue)

datatype PrismaAttribute =
    PrismaFieldAttribute string "PrismaAttributeArg list"
  | PrismaModelAttribute string "PrismaAttributeArg list"
  | PrismaPassThroughAttribute js_value

section \<open>External collaborators\<close>

text \<open>
  What the generator calls and the sources do not define is a parameter of the model:
  the JavaScript built-ins \<^verbatim>\<open>JSON.stringify\<close>, \<^verbatim>\<open>JSON.parse\<close> and \<^verbatim>\<open>toString\<close> on numbers,
  \<^verbatim>\<open>semver.lt\<close> (which throws on a malformed version), the detected Prisma version
  (\<^verbatim>\<open>getPrismaVersion()\<close>), the ZModel code generator that re-renders an attribute, the
  builder's rendering of a function call, the SDK's \<^verbatim>\<open>getAttribute\<close> and
  \<^verbatim>\<open>isAuthInvocation\<close>, and the runtime's constant \<^verbatim>\<open>PRISMA_MINIMUM_VERSION\<close>. Every
  theorem holds for all of them.
\<close>

record externals =
  JSON_stringify :: "js_value \<Rightarrow> string"
  JSON_parse :: "string \<Rightarrow> error + js_value"
  Number_toString :: "real \<Rightarrow> string"
  semver_lt :: "string \<Rightarrow> string \<Rightarrow> error + bool"
  getPrismaVersion :: "string option"
  zModelGenerate :: "DataModelAttribute \<Rightarrow> string"
  functionCallToString :: "PrismaFunctionCall \<Rightarrow> string"
  getAttribute :: "DataModelField \<Rightarrow> string \<Rightarrow> DataModelAttribute option"
  isAuthInvocation :: "Expression \<Rightarrow> bool"
  PRISMA_MINIMUM_VERSION :: string

section \<open>Expression translator\<close>

text \<open>The node's \<^verbatim>\<open>$type\<close>, for the nodes the translator rejects.\<close>

fun node_type :: "Expression \<Rightarrow> string" where
  "node_type (Literal (StringLiteral _)) = ''StringLiteral''"
| "node_type (Literal (NumberLiteral _)) = ''NumberLiteral''"
| "node_type (Literal (BooleanLiteral _)) = ''BooleanLiteral''"
| "node_type (ArrayExpr _) = ''ArrayExpr''"
| "node_type (ReferenceExpr _ _) = ''ReferenceExpr''"
| "node_type (InvocationExpr _ _) = ''InvocationExpr''"
| "node_type NullExpr = ''NullExpr''"
| "node_type (OtherExpr t _) = t"

text \<open>
  The callback of \<^verbatim>\<open>makeFunctionCall\<close>: the \<^verbatim>\<open>match\<close> on the argument's value, in the
  order of its cases (string literal, any literal, null, otherwise).
\<close>

fun functionCallArgValue :: "externals \<Rightarrow> Expression \<Rightarrow> error + string" where
  \<open>functionCallArgValue E (Literal (StringLiteral s)) = Inr (''"'' @ s @ ''"'')\<close>
| \<open>functionCallArgValue E (Literal (NumberLiteral n)) = Inr (Number_toString E n)\<close>
| \<open>functionCallArgValue E (Literal (BooleanLiteral b)) = Inr (if b then ''true'' else ''false'')\<close>
| \<open>functionCallArgValue E NullExpr = Inr ''null''\<close>
| \<open>functionCallArgValue E _ = Inl (PluginError ''Function call argument must be literal or null'')\<close>

definition makeFunctionCallArg ::
  "externals \<Rightarrow> Argument \<Rightarrow> error + PrismaFunctionCallArg" where
  "makeFunctionCallArg E arg =
     (case functionCallArgValue E (arg_value arg) of
        Inl e \<Rightarrow> Inl e
      | Inr val \<Rightarrow> Inr (PrismaFunctionCallArg (arg_name arg) val))"

definition makeFunctionCall ::
  "externals \<Rightarrow> FunctionDecl option \<Rightarrow> Argument list \<Rightarrow> error + PrismaFunctionCall" where
  "makeFunctionCall E func args =
     (case resolved func of
        Inl e \<Rightarrow> Inl e
      | Inr f \<Rightarrow>
          (case mapE (makeFunctionCallArg E) args of
             Inl e \<Rightarrow> Inl e
           | Inr as \<Rightarrow> Inr (PrismaFunctionCall (func_name f) as)))"

fun makeAttributeArgValue ::
  "externals \<Rightarrow> Expression \<Rightarrow> error + PrismaAttributeArgValue"
and makeAttributeArgValues ::
  "externals \<Rightarrow> Expression list \<Rightarrow> error + PrismaAttributeArgValue list" where
  "makeAttributeArgValue E (Literal (StringLiteral s)) = Inr (AV_String s)"
| "makeAttributeArgValue E (Literal (NumberLiteral n)) = Inr (AV_Number n)"
| "makeAttributeArgValue E (Literal (BooleanLiteral b)) = Inr (AV_Boolean b)"
| "makeAttributeArgValue E (ArrayExpr items) =
     (case makeAttributeArgValues E items of
        Inl e \<Rightarrow> Inl e
      | Inr vs \<Rightarrow> Inr (AV_Array vs))"
| "makeAttributeArgValue E (ReferenceExpr target args) =
     (case resolved target of
        Inl e \<Rightarrow> Inl e
      | Inr name \<Rightarrow>
          Inr (AV_FieldReference (PrismaFieldReference name
                 (map (\<lambda>arg. PrismaFieldReferenceArg (refarg_name arg) (refarg_value arg)) args))))"
| "makeAttributeArgValue E (InvocationExpr func args) =
     (case makeFunctionCall E func args of
        Inl e \<Rightarrow> Inl e
      | Inr fc \<Rightarrow> Inr (AV_FunctionCall fc))"
| "makeAttributeArgValue E NullExpr =
     Inl (PluginError (''Unsupported attribute argument expression type: '' @ node_type NullExpr))"
| "makeAttributeArgValue E (OtherExpr t es) =
     Inl (PluginError (''Unsupported attribute argument expression type: ''
                        @ node_type (OtherExpr t es)))"
| "makeAttributeArgValues E [] = Inr []"
| "makeAttributeArgValues E (item # items) =
     (case makeAttributeArgValue E item of
        Inl e \<Rightarrow> Inl e
      | Inr v \<Rightarrow>
          (case makeAttributeArgValues E items of
             Inl e \<Rightarrow> Inl e
           | Inr vs \<Rightarrow> Inr (v # vs)))"

definition makeAttributeArg ::
  "externals \<Rightarrow> AttributeArg \<Rightarrow> error + PrismaAttributeArg" where
  "makeAttributeArg E arg =
     (case makeAttributeArgValue E (attrarg_value arg) of
        Inl e \<Rightarrow> Inl e
      | Inr v \<Rightarrow> Inr (PrismaAttributeArg (attrarg_name arg) v))"

section \<open>Attribute emission\<close>

text \<open>
  \<^verbatim>\<open>attr.args[0].value\<close>: reading \<^verbatim>\<open>value\<close> of \<^verbatim>\<open>undefined\<close> throws a \<^verbatim>\<open>TypeError\<close> when the
  argument list is empty.
\<close>

definition first_arg_value :: "AttributeArg list \<Rightarrow> error + Expression" where
  "first_arg_value args =
     (case args of
        [] \<Rightarrow> Inl (TypeError ''Cannot read properties of undefined'')
      | a # _ \<Rightarrow> Inr (attrarg_value a))"

definition makeFieldAttribute ::
  "externals \<Rightarrow> DataModelFieldAttribute \<Rightarrow> error + PrismaAttribute" where
  "makeFieldAttribute E attr =
     (case resolved (attr_decl attr) of
        Inl e \<Rightarrow> Inl e
      | Inr d \<Rightarrow>
          (let attrName = decl_name d in
           if attrName = FIELD_PASSTHROUGH_ATTR then
             (case first_arg_value (attr_args attr) of
                Inl e \<Rightarrow> Inl e
              | Inr v \<Rightarrow>
                  (case getLiteral v of
                     None \<Rightarrow>
                       Inl (PluginError (''Invalid arguments for '' @ FIELD_PASSTHROUGH_ATTR
                                          @ '' attribute''))
                   | Some text \<Rightarrow>
                       if truthy text then Inr (PrismaPassThroughAttribute text)
                       else Inl (PluginError (''Invalid arguments for '' @ FIELD_PASSTHROUGH_ATTR
                                               @ '' attribute''))))
           else
             (case mapE (makeAttributeArg E) (attr_args attr) of
                Inl e \<Rightarrow> Inl e
              | Inr args \<Rightarrow> Inr (PrismaFieldAttribute attrName args))))"

text \<open>
  \<^verbatim>\<open>generateContainerAttribute\<close> pushes onto the container's attribute list; the list is
  passed in and returned.
\<close>

definition generateContainerAttribute ::
  "externals \<Rightarrow> PrismaAttribute list \<Rightarrow> DataModelAttribute
     \<Rightarrow> error + PrismaAttribute list" where
  "generateContainerAttribute E attributes attr =
     (case resolved (attr_decl attr) of
        Inl e \<Rightarrow> Inl e
      | Inr d \<Rightarrow>
          (let attrName = decl_name d in
           if attrName = MODEL_PASSTHROUGH_ATTR then
             (case first_arg_value (attr_args attr) of
                Inl e \<Rightarrow> Inl e
              | Inr v \<Rightarrow>
                  (case getLiteral v of
                     None \<Rightarrow> Inr attributes
                   | Some text \<Rightarrow>
                       if truthy text then Inr (attributes @ [PrismaPassThroughAttribute text])
                       else Inr attributes))
           else
             (case mapE (makeAttributeArg E) (attr_args attr) of
                Inl e \<Rightarrow> Inl e
              | Inr args \<Rightarrow> Inr (attributes @ [PrismaModelAttribute attrName args]))))"

section \<open>Target document\<close>

text \<open>
  Modelled from the spec: the builder's containers are not among the sources. A target
  model or enum has a name, ordered fields, ordered container attributes and ordered
  comment lines; a target field has a name, a type (name, array flag, optional flag),
  ordered attributes and its documentation lines, to which \<^verbatim>\<open>addComment\<close> appends. The
  target document is the ordered collection of the declarations in the order in which
  the driver adds them: ``declarations appear in the order added''.
\<close>

datatype ModelFieldType = ModelFieldType string bool bool

datatype PrismaModelField =
  PrismaModelField
    (mf_name: string)
    (mf_type: ModelFieldType)
    (mf_attributes: "PrismaAttribute list")
    (mf_documentations: "string list")

datatype PrismaEnumField =
  PrismaEnumField
    (pef_name: string)
    (pef_attributes: "PrismaAttribute list")
    (pef_documentations: "string list")

record PrismaDataModel =
  model_name :: string
  model_isView :: bool
  model_fields :: "PrismaModelField list"
  model_attributes :: "PrismaAttribute list"
  model_comments :: "string list"

record PrismaEnum =
  enum_name :: string
  enum_fields :: "PrismaEnumField list"
  enum_attributes :: "PrismaAttribute list"
  enum_comments :: "string list"

datatype SimpleField = SimpleField (sf_name: string) (sf_text: string)

datatype PrismaDeclaration =
    PrismaDataSource string "SimpleField list"
  | PrismaGenerator string "SimpleField list"
  | PrismaEnumDeclaration PrismaEnum
  | PrismaModelDeclaration PrismaDataModel

type_synonym PrismaModel = "PrismaDeclaration list"

definition newModel :: "string \<Rightarrow> bool \<Rightarrow> PrismaDataModel" where
  "newModel name isView =
     \<lparr>model_name = name, model_isView = isView, model_fields = [],
      model_attributes = [], model_comments = []\<rparr>"

definition newEnum :: "string \<Rightarrow> PrismaEnum" where
  "newEnum name =
     \<lparr>enum_name = name, enum_fields = [], enum_attributes = [], enum_comments = []\<rparr>"

text \<open>A \<^verbatim>\<open>for ... of\<close> loop whose body may throw, threading the state it mutates.\<close>

fun foldE :: "('s \<Rightarrow> 'a \<Rightarrow> 'e + 's) \<Rightarrow> 's \<Rightarrow> 'a list \<Rightarrow> 'e + 's" where
  "foldE f s [] = Inr s"
| "foldE f s (x # xs) = (case f s x of Inl e \<Rightarrow> Inl e | Inr s' \<Rightarrow> foldE f s' xs)"

section \<open>Model fields\<close>

text \<open>
  \<^verbatim>\<open>streamAst\<close> of Langium: the node itself, then all its descendants, depth first. Only
  expression nodes are listed; the argument nodes in between are no invocations.
\<close>

fun streamAst :: "Expression \<Rightarrow> Expression list"
and streamAst_list :: "Expression list \<Rightarrow> Expression list"
and streamAst_args :: "Argument list \<Rightarrow> Expression list" where
  "streamAst (Literal l) = [Literal l]"
| "streamAst (ArrayExpr items) = ArrayExpr items # streamAst_list items"
| "streamAst (ReferenceExpr target args) = [ReferenceExpr target args]"
| "streamAst (InvocationExpr func args) = InvocationExpr func args # streamAst_args args"
| "streamAst NullExpr = [NullExpr]"
| "streamAst (OtherExpr t es) = OtherExpr t es # streamAst_list es"
| "streamAst_list [] = []"
| "streamAst_list (e # es) = streamAst e @ streamAst_list es"
| "streamAst_args [] = []"
| "streamAst_args (Argument n e # as) = streamAst e @ streamAst_args as"

definition hasDefaultWithAuth :: "externals \<Rightarrow> DataModelField \<Rightarrow> bool" where
  "hasDefaultWithAuth E field =
     (case getAttribute E field ''@default'' of
        None \<Rightarrow> False
      | Some defaultAttr \<Rightarrow>
          (case attr_args defaultAttr of
             [] \<Rightarrow> False
           | a # _ \<Rightarrow> list_ex (isAuthInvocation E) (streamAst (attrarg_value a))))"

definition getAttributesToGenerate ::
  "externals \<Rightarrow> DataModelField \<Rightarrow> error + PrismaAttribute list" where
  "getAttributesToGenerate E field =
     (if hasDefaultWithAuth E field then Inr []
      else mapE (makeFieldAttribute E) (filter isPrismaAttribute (field_attributes field)))"

definition getUnsupportedFieldType :: "DataModelFieldType \<Rightarrow> string option" where
  \<open>getUnsupportedFieldType fieldType =
     (case ft_unsupported fieldType of
        Some u \<Rightarrow>
          (case getStringLiteral (unsupported_value u) of
             Some v \<Rightarrow> if v \<noteq> [] then Some (''Unsupported("'' @ v @ ''")'') else None
           | None \<Rightarrow> None)
      | None \<Rightarrow> None)\<close>

text \<open>\<^verbatim>\<open>a || b\<close> on strings that may be \<^verbatim>\<open>undefined\<close>: the empty string is falsy too.\<close>

definition js_or :: "string option \<Rightarrow> string option \<Rightarrow> string option" where
  "js_or a b = (case a of Some s \<Rightarrow> if s \<noteq> [] then a else b | None \<Rightarrow> b)"

definition resolvedFieldType :: "DataModelFieldType \<Rightarrow> string option" where
  "resolvedFieldType t =
     js_or (ft_type t)
       (js_or (case ft_reference t of None \<Rightarrow> None | Some r \<Rightarrow> r)
              (getUnsupportedFieldType t))"

text \<open>The attributes that become documentation lines.\<close>

definition nonPrismaAttributes :: "DataModelAttribute list \<Rightarrow> DataModelAttribute list" where
  "nonPrismaAttributes attrs =
     filter (\<lambda>attr. attr_decl attr \<noteq> None \<and> \<not> isPrismaAttribute attr) attrs"

definition docComment :: "externals \<Rightarrow> DataModelAttribute \<Rightarrow> string" where
  "docComment E attr = ''/// '' @ zModelGenerate E attr"

definition generateModelField ::
  "externals \<Rightarrow> PrismaDataModel \<Rightarrow> DataModelField \<Rightarrow> error + PrismaDataModel" where
  "generateModelField E model field =
     (case resolvedFieldType (field_type field) of
        None \<Rightarrow>
          Inl (PluginError (''Field type is not resolved: '' @ field_container field
                             @ ''.'' @ field_name field))
      | Some fieldType \<Rightarrow>
          if fieldType = [] then
            Inl (PluginError (''Field type is not resolved: '' @ field_container field
                               @ ''.'' @ field_name field))
          else
            (let type = ModelFieldType fieldType (ft_array (field_type field))
                          (ft_optional (field_type field)) in
             case getAttributesToGenerate E field of
               Inl e \<Rightarrow> Inl e
             | Inr attributes \<Rightarrow>
                 (let documentations =
                        map (docComment E) (nonPrismaAttributes (field_attributes field));
                      result = PrismaModelField (field_name field) type attributes
                                 (documentations @ field_comments field)
                  in Inr (model\<lparr>model_fields := model_fields model @ [result]\<rparr>))))"

section \<open>Models and enums\<close>

definition generateModel :: "externals \<Rightarrow> PrismaModel \<Rightarrow> DataModel \<Rightarrow> error + PrismaModel" where
  "generateModel E prisma decl =
     (case foldE (generateModelField E) (newModel (dm_name decl) (dm_isView decl))
             (dm_fields decl) of
        Inl e \<Rightarrow> Inl e
      | Inr model1 \<Rightarrow>
          (case foldE (generateContainerAttribute E) (model_attributes model1)
                  (filter isPrismaAttribute (dm_attributes decl)) of
             Inl e \<Rightarrow> Inl e
           | Inr attributes \<Rightarrow>
               Inr (prisma @ [PrismaModelDeclaration
                      (model1\<lparr>model_attributes := attributes,
                              model_comments := model_comments model1
                                @ map (docComment E) (nonPrismaAttributes (dm_attributes decl))
                                @ dm_comments decl\<rparr>)])))"

definition generateEnumField ::
  "externals \<Rightarrow> PrismaEnum \<Rightarrow> EnumField \<Rightarrow> error + PrismaEnum" where
  "generateEnumField E enum field =
     (case mapE (makeFieldAttribute E) (filter isPrismaAttribute (ef_attributes field)) of
        Inl e \<Rightarrow> Inl e
      | Inr attributes \<Rightarrow>
          (let documentations = map (docComment E) (nonPrismaAttributes (ef_attributes field))
           in Inr (enum\<lparr>enum_fields := enum_fields enum
                          @ [PrismaEnumField (ef_name field) attributes documentations]\<rparr>)))"

definition generateEnum :: "externals \<Rightarrow> PrismaModel \<Rightarrow> Enum \<Rightarrow> error + PrismaModel" where
  "generateEnum E prisma decl =
     (case foldE (generateEnumField E) (newEnum (en_name decl)) (en_fields decl) of
        Inl e \<Rightarrow> Inl e
      | Inr enum1 \<Rightarrow>
          (case foldE (generateContainerAttribute E) (enum_attributes enum1)
                  (filter isPrismaAttribute (en_attributes decl)) of
             Inl e \<Rightarrow> Inl e
           | Inr attributes \<Rightarrow>
               Inr (prisma @ [PrismaEnumDeclaration
                      (enum1\<lparr>enum_attributes := attributes,
                             enum_comments := enum_comments enum1
                               @ map (docComment E) (nonPrismaAttributes (en_attributes decl))
                               @ en_comments decl\<rparr>)])))"

section \<open>Data sources and generators\<close>

definition literalToText :: "externals \<Rightarrow> LiteralExpr \<Rightarrow> string" where
  "literalToText E expr = JSON_stringify E (literal_value expr)"

definition configInvocationArgToText :: "externals \<Rightarrow> ConfigInvocationArg \<Rightarrow> string" where
  "configInvocationArgToText E arg = cia_name arg @ '': '' @ literalToText E (cia_value arg)"

fun configArrayItemToText :: "externals \<Rightarrow> ConfigArrayItem \<Rightarrow> string" where
  "configArrayItemToText E (ConfigLiteralItem item) = literalToText E item"
| "configArrayItemToText E (ConfigInvocationItem name args) =
     name @ (if length args > 0
             then ''('' @ join '', '' (map (configInvocationArgToText E) args) @ '')''
             else [])"

definition configArrayToText :: "externals \<Rightarrow> ConfigArrayItem list \<Rightarrow> string" where
  "configArrayToText E items = ''['' @ join '', '' (map (configArrayItemToText E) items) @ '']''"

fun configExprToText :: "externals \<Rightarrow> ConfigExpr \<Rightarrow> error + string" where
  "configExprToText E (ConfigLiteral expr) = Inr (literalToText E expr)"
| "configExprToText E (ConfigInvocation func args) =
     (case makeFunctionCall E func args of
        Inl e \<Rightarrow> Inl e
      | Inr fc \<Rightarrow> Inr (functionCallToString E fc))"
| "configExprToText E (ConfigArrayExpr items) = Inr (configArrayToText E items)"

definition configFieldToSimple :: "externals \<Rightarrow> ConfigField \<Rightarrow> error + SimpleField" where
  "configFieldToSimple E f =
     (case configExprToText E (cf_value f) of
        Inl e \<Rightarrow> Inl e
      | Inr text \<Rightarrow> Inr (SimpleField (cf_name f) text))"

definition generateDataSource ::
  "externals \<Rightarrow> PrismaModel \<Rightarrow> DataSource \<Rightarrow> error + PrismaModel" where
  "generateDataSource E prisma dataSource =
     (case mapE (configFieldToSimple E) (ds_fields dataSource) of
        Inl e \<Rightarrow> Inl e
      | Inr fs \<Rightarrow> Inr (prisma @ [PrismaDataSource (ds_name dataSource) fs]))"

text \<open>\<^verbatim>\<open>if (!xs.includes(x)) xs.push(x)\<close>.\<close>

definition pushIfAbsent :: "js_value \<Rightarrow> js_value list \<Rightarrow> js_value list" where
  "pushIfAbsent x xs = (if x \<in> set xs then xs else xs @ [x])"

text \<open>\<^verbatim>\<open>curr.text = text\<close> for the first field of the given name.\<close>

fun setFirstText :: "string \<Rightarrow> string \<Rightarrow> SimpleField list \<Rightarrow> SimpleField list" where
  "setFirstText name text [] = []"
| "setFirstText name text (f # fs) =
     (if sf_name f = name then SimpleField (sf_name f) text # fs
      else f # setFirstText name text fs)"

text \<open>
  The generator is added with the rendered fields and then patched in place; the model
  computes the patched fields and adds the generator with them. A throw after the
  generator was added aborts the run.
\<close>

definition generateGenerator ::
  "externals \<Rightarrow> PrismaModel \<Rightarrow> GeneratorDecl \<Rightarrow> error + PrismaModel" where
  \<open>generateGenerator E prisma decl =
     (case mapE (configFieldToSimple E) (gen_fields decl) of
        Inl e \<Rightarrow> Inl e
      | Inr fs \<Rightarrow>
          (let provider = find (\<lambda>f. sf_name f = ''provider'') fs in
           if map_option sf_text provider = Some (JSON_stringify E (JSString ''prisma-client-js''))
           then
             (case getPrismaVersion E of
                None \<Rightarrow> Inr (prisma @ [PrismaGenerator (gen_name decl) fs])
              | Some prismaVersion \<Rightarrow>
                  if prismaVersion = [] then Inr (prisma @ [PrismaGenerator (gen_name decl) fs])
                  else
                    (case JSON_parse E
                            (case find (\<lambda>f. sf_name f = ''previewFeatures'') fs of
                               Some f \<Rightarrow> sf_text f
                             | None \<Rightarrow> ''[]'') of
                       Inl e \<Rightarrow> Inl e
                     | Inr (JSArray previewFeatures) \<Rightarrow>
                         (case semver_lt E prismaVersion ''5.0.0'' of
                            Inl e \<Rightarrow> Inl e
                          | Inr lt1 \<Rightarrow>
                              (let pf1 = (if lt1
                                          then pushIfAbsent (JSString ''extendedWhereUnique'')
                                                 previewFeatures
                                          else previewFeatures) in
                               case semver_lt E prismaVersion ''5.0.0'' of
                                 Inl e \<Rightarrow> Inl e
                               | Inr lt2 \<Rightarrow>
                                   (let pf2 = (if lt2
                                               then pushIfAbsent (JSString ''fieldReference'') pf1
                                               else pf1) in
                                    if length pf2 > 0 then
                                      (case find (\<lambda>f. sf_name f = ''previewFeatures'') fs of
                                         None \<Rightarrow>
                                           Inr (prisma @ [PrismaGenerator (gen_name decl)
                                                  (fs @ [SimpleField ''previewFeatures''
                                                           (JSON_stringify E (JSArray pf2))])])
                                       | Some _ \<Rightarrow>
                                           Inr (prisma @ [PrismaGenerator (gen_name decl)
                                                  (setFirstText ''previewFeatures''
                                                     (JSON_stringify E (JSArray pf2)) fs)]))
                                    else Inr (prisma @ [PrismaGenerator (gen_name decl) fs]))))
                     | Inr _ \<Rightarrow> Inl (PluginError ''option "previewFeatures" must be an array'')))
           else Inr (prisma @ [PrismaGenerator (gen_name decl) fs])))\<close>

section \<open>The driver\<close>

text \<open>
  \<^verbatim>\<open>generate\<close> up to the end of its loop over the document's declarations: the warning
  about the minimum version, then the target document built declaration by declaration.
  The result is the warnings so far and the document. Writing the file and calling the
  Prisma CLI come after the loop and are not modelled.
\<close>

fun generateDeclaration ::
  "externals \<Rightarrow> PrismaModel \<Rightarrow> AbstractDeclaration \<Rightarrow> error + PrismaModel" where
  "generateDeclaration E prisma (DataSourceDeclaration decl) = generateDataSource E prisma decl"
| "generateDeclaration E prisma (EnumDeclaration decl) = generateEnum E prisma decl"
| "generateDeclaration E prisma (DataModelDeclaration decl) = generateModel E prisma decl"
| "generateDeclaration E prisma (GeneratorDeclaration decl) = generateGenerator E prisma decl"
| "generateDeclaration E prisma (OtherDeclaration t) = Inr prisma"

definition generate :: "externals \<Rightarrow> Model \<Rightarrow> error + string list \<times> PrismaModel" where
  \<open>generate E model =
     (case (case getPrismaVersion E of
              None \<Rightarrow> Inr []
            | Some prismaVersion \<Rightarrow>
                if prismaVersion = [] then Inr []
                else
                  (case semver_lt E prismaVersion (PRISMA_MINIMUM_VERSION E) of
                     Inl e \<Rightarrow> Inl e
                   | Inr lt \<Rightarrow>
                       Inr (if lt
                            then [''ZenStack requires Prisma version "''
                                  @ PRISMA_MINIMUM_VERSION E
                                  @ ''" or higher. Detected version is "''
                                  @ prismaVersion @ ''".'']
                            else []))) of
        Inl e \<Rightarrow> Inl e
      | Inr warnings \<Rightarrow>
          (case foldE (generateDeclaration E) [] (declarations model) of
             Inl e \<Rightarrow> Inl e
           | Inr prisma \<Rightarrow> Inr (warnings, prisma)))\<close>

section \<open>Names for the statements\<close>

text \<open>
  Parts of \<open>generateGenerator\<close> that the statements refer to: whether the rendered
  \<^verbatim>\<open>provider\<close> field is the text of \<^verbatim>\<open>"prisma-client-js"\<close>, the text that is parsed as the
  preview features, and the rendered fields with the preview features' text set (the
  first field of that name updated, or a new field pushed).
\<close>

definition isClientGenerator :: "externals \<Rightarrow> SimpleField list \<Rightarrow> bool" where
  "isClientGenerator E fs \<longleftrightarrow>
     map_option sf_text (find (\<lambda>f. sf_name f = ''provider'') fs)
       = Some (JSON_stringify E (JSString ''prisma-client-js''))"

definition previewFeaturesText :: "SimpleField list \<Rightarrow> string" where
  "previewFeaturesText fs =
     (case find (\<lambda>f. sf_name f = ''previewFeatures'') fs of
        Some f \<Rightarrow> sf_text f
      | None \<Rightarrow> ''[]'')"

definition withPreviewFeatures :: "string \<Rightarrow> SimpleField list \<Rightarrow> SimpleField list" where
  "withPreviewFeatures text fs =
     (case find (\<lambda>f. sf_name f = ''previewFeatures'') fs of
        None \<Rightarrow> fs @ [SimpleField ''previewFeatures'' text]
      | Some _ \<Rightarrow> setFirstText ''previewFeatures'' text fs)"

text \<open>
  What one container attribute contributes to the target attributes, stated on its own:
  nothing when its declaration is unresolved; for \<^verbatim>\<open>@@prisma.passthrough\<close> the opaque text
  of its first argument when that has a truthy literal value, and nothing otherwise; for
  any other declaration one regular attribute of the declaration's name with the
  translated arguments. \<open>silentPassThrough\<close> holds of a \<^verbatim>\<open>@@prisma.passthrough\<close> attribute
  whose first argument is present and has no truthy literal value.
\<close>

definition containerAttributeOf :: "externals \<Rightarrow> DataModelAttribute \<Rightarrow> PrismaAttribute list" where
  "containerAttributeOf E attr =
     (case attr_decl attr of
        None \<Rightarrow> []
      | Some d \<Rightarrow>
          if decl_name d = ''@@prisma.passthrough'' then
            (case attr_args attr of
               [] \<Rightarrow> []
             | a # _ \<Rightarrow>
                 (case getLiteral (attrarg_value a) of
                    None \<Rightarrow> []
                  | Some text \<Rightarrow> if truthy text then [PrismaPassThroughAttribute text] else []))
          else
            (case mapE (makeAttributeArg E) (attr_args attr) of
               Inl e \<Rightarrow> []
             | Inr args \<Rightarrow> [PrismaModelAttribute (decl_name d) args]))"

definition silentPassThrough :: "DataModelAttribute \<Rightarrow> bool" where
  "silentPassThrough attr =
     (case attr_decl attr of
        None \<Rightarrow> False
      | Some d \<Rightarrow>
          decl_name d = ''@@prisma.passthrough'' \<and>
          (case attr_args attr of
             [] \<Rightarrow> False
           | a # _ \<Rightarrow>
               (case getLiteral (attrarg_value a) of
                  None \<Rightarrow> True
                | Some text \<Rightarrow> \<not> truthy text)))"

text \<open>
  A source declaration and the target declaration generated for it: the same kind and
  name, for a data source the same field names in the same order, for a model or enum
  the same field names in the same order and the container attributes of the emittable
  source attributes in their order, for a generator the same field names in the same
  order, possibly followed by a \<^verbatim>\<open>previewFeatures\<close> field. \<open>handledDeclaration\<close> holds of
  the four kinds of declaration the driver has a case for.
\<close>

fun corresponds :: "externals \<Rightarrow> AbstractDeclaration \<Rightarrow> PrismaDeclaration \<Rightarrow> bool" where
  "corresponds E (DataSourceDeclaration d) (PrismaDataSource n fs) =
     (n = ds_name d \<and> map sf_name fs = map cf_name (ds_fields d))"
| "corresponds E (EnumDeclaration d) (PrismaEnumDeclaration e) =
     (enum_name e = en_name d \<and>
      map pef_name (enum_fields e) = map ef_name (en_fields d) \<and>
      enum_attributes e
        = concat (map (containerAttributeOf E) (filter isPrismaAttribute (en_attributes d))))"
| "corresponds E (DataModelDeclaration d) (PrismaModelDeclaration m) =
     (model_name m = dm_name d \<and> model_isView m = dm_isView d \<and>
      map mf_name (model_fields m) = map field_name (dm_fields d) \<and>
      model_attributes m
        = concat (map (containerAttributeOf E) (filter isPrismaAttribute (dm_attributes d))))"
| "corresponds E (GeneratorDeclaration d) (PrismaGenerator n fs) =
     (n = gen_name d \<and>
      (map sf_name fs = map cf_name (gen_fields d) \<or>
       map sf_name fs = map cf_name (gen_fields d) @ [''previewFeatures'']))"
| "corresponds E _ _ = False"

fun handledDeclaration :: "AbstractDeclaration \<Rightarrow> bool" where
  "handledDeclaration (OtherDeclaration t) = False"
| "handledDeclaration _ = True"

section \<open>An instance of the external collaborators\<close>

text \<open>
  The examples below instantiate the external collaborators. Each member agrees with
  the real one on the inputs of the examples and is restricted elsewhere:
  \<open>exampleStringify\<close> is \<^verbatim>\<open>JSON.stringify\<close> on null, booleans, strings without characters
  to escape, and arrays of these; \<open>exampleParse\<close> is \<^verbatim>\<open>JSON.parse\<close> on arrays of such
  strings (any other text is reported as a syntax error here); \<open>exampleSemverLt\<close> is
  \<^verbatim>\<open>semver.lt\<close> on the pairs of versions it lists; \<open>exampleGenerate\<close> renders
  an attribute by the name of its declaration; \<open>exampleGetAttribute\<close> finds a field's
  attribute by the name of its resolved declaration, and \<open>exampleIsAuthInvocation\<close>
  recognises an invocation of a function named \<^verbatim>\<open>auth\<close>.
\<close>

fun exampleStringify :: "js_value \<Rightarrow> string" where
  \<open>exampleStringify JSNull = ''null''\<close>
| \<open>exampleStringify (JSBoolean b) = (if b then ''true'' else ''false'')\<close>
| \<open>exampleStringify (JSNumber n) = ''0''\<close>
| \<open>exampleStringify (JSString s) = ''"'' @ s @ ''"''\<close>
| \<open>exampleStringify (JSArray vs) = ''['' @ join '','' (map exampleStringify vs) @ '']''\<close>
| \<open>exampleStringify (JSObject kvs) = ''{}''\<close>

text \<open>
  A scanner over the text; the state is 0 before the opening bracket, 1 where an item
  is expected, 2 inside a string, 3 after a string, 4 after the closing bracket, 5 after
  the opening bracket.
\<close>

fun exampleScan :: "nat \<Rightarrow> string \<Rightarrow> js_value list \<Rightarrow> string \<Rightarrow> js_value list option" where
  \<open>exampleScan st acc items [] = (if st = 4 then Some items else None)\<close>
| \<open>exampleScan st acc items (c # cs) =
     (if st = 2 then
        (if c = CHR ''"'' then exampleScan 3 [] (items @ [JSString acc]) cs
         else exampleScan 2 (acc @ [c]) items cs)
      else if c = CHR '' '' then exampleScan st acc items cs
      else if st = 0 \<and> c = CHR ''['' then exampleScan 5 [] items cs
      else if (st = 1 \<or> st = 5) \<and> c = CHR ''"'' then exampleScan 2 [] items cs
      else if (st = 3 \<or> st = 5) \<and> c = CHR '']'' then exampleScan 4 [] items cs
      else if st = 3 \<and> c = CHR '','' then exampleScan 1 [] items cs
      else None)\<close>

definition exampleParse :: "string \<Rightarrow> error + js_value" where
  "exampleParse text =
     (case exampleScan 0 [] [] text of
        Some items \<Rightarrow> Inr (JSArray items)
      | None \<Rightarrow> Inl (SyntaxError ''Unexpected token''))"

definition exampleSemverLt :: "string \<Rightarrow> string \<Rightarrow> error + bool" where
  "exampleSemverLt a b =
     (if a = ''4.16.2'' \<and> b = ''5.0.0'' then Inr True
      else if a = ''5.22.0'' \<and> b = ''5.0.0'' then Inr False
      else if a = ''4.16.2'' \<and> b = ''4.8.0'' then Inr False
      else if a = ''5.22.0'' \<and> b = ''4.8.0'' then Inr False
      else Inl (TypeError ''Invalid Version''))"

definition exampleGenerate :: "DataModelAttribute \<Rightarrow> string" where
  "exampleGenerate attr = (case attr_decl attr of Some d \<Rightarrow> decl_name d | None \<Rightarrow> [])"

definition exampleFunctionCallToString :: "PrismaFunctionCall \<Rightarrow> string" where
  "exampleFunctionCallToString fc =
     fc_func fc @ ''('' @ join '', '' (map fcarg_value (fc_args fc)) @ '')''"

definition exampleGetAttribute :: "DataModelField \<Rightarrow> string \<Rightarrow> DataModelAttribute option" where
  "exampleGetAttribute field name =
     find (\<lambda>a. map_option decl_name (attr_decl a) = Some name) (field_attributes field)"

fun exampleIsAuthInvocation :: "Expression \<Rightarrow> bool" where
  "exampleIsAuthInvocation (InvocationExpr (Some f) args) = (func_name f = ''auth'')"
| "exampleIsAuthInvocation _ = False"

definition exampleExternals :: externals where
  "exampleExternals =
     \<lparr>JSON_stringify = exampleStringify,
      JSON_parse = exampleParse,
      Number_toString = (\<lambda>n. if n = 1 then ''1'' else ''0''),
      semver_lt = exampleSemverLt,
      getPrismaVersion = Some ''4.16.2'',
      zModelGenerate = exampleGenerate,
      functionCallToString = exampleFunctionCallToString,
      getAttribute = exampleGetAttribute,
      isAuthInvocation = exampleIsAuthInvocation,
      PRISMA_MINIMUM_VERSION = ''4.8.0''\<rparr>"

section \<open>Properties\<close>

subsection \<open>The classifier\<close>

lemma find_eq_None_iff: "find P xs = None \<longleftrightarrow> (\<forall>x \<in> set xs. \<not> P x)"
  by (induction xs) auto

text \<open>
  C1. \<open>isPrismaAttribute\<close> is false for an attribute whose declaration reference is
  unresolved; for a resolved one it is true exactly when the declaration carries an
  internal attribute whose own resolved declaration is named \<^verbatim>\<open>@@@prisma\<close>, or the
  declaration's name is \<^verbatim>\<open>@@prisma.passthrough\<close> or \<^verbatim>\<open>@prisma.passthrough\<close>; in every
  other case it is false.
\<close>

theorem isPrismaAttribute_classifies:
  "(attr_decl attr = None \<longrightarrow> \<not> isPrismaAttribute attr) \<and>
   (\<forall>d. attr_decl attr = Some d \<longrightarrow>
      (isPrismaAttribute attr \<longleftrightarrow>
         (\<exists>a \<in> set (decl_attributes d). \<exists>m. ia_decl a = Some m \<and> decl_name m = ''@@@prisma'')
         \<or> decl_name d = ''@@prisma.passthrough''
         \<or> decl_name d = ''@prisma.passthrough''))"
  by (auto simp: isPrismaAttribute_def MODEL_PASSTHROUGH_ATTR_def FIELD_PASSTHROUGH_ATTR_def
        find_eq_None_iff)

theorem isPrismaAttribute_classifies_witness:
  "\<not> isPrismaAttribute (DataModelAttribute None []) \<and>
   isPrismaAttribute (DataModelAttribute
      (Some (Attribute ''@id'' [InternalAttribute (Some (Attribute ''@@@prisma'' []))])) []) \<and>
   isPrismaAttribute (DataModelAttribute (Some (Attribute ''@@prisma.passthrough'' [])) []) \<and>
   isPrismaAttribute (DataModelAttribute (Some (Attribute ''@prisma.passthrough'' [])) []) \<and>
   \<not> isPrismaAttribute (DataModelAttribute
      (Some (Attribute ''@@allow'' [InternalAttribute None,
                                   InternalAttribute (Some (Attribute ''@@@validation'' []))])) [])"
  using isPrismaAttribute_classifies [of "DataModelAttribute None []"]
    isPrismaAttribute_classifies [of "DataModelAttribute
      (Some (Attribute ''@id'' [InternalAttribute (Some (Attribute ''@@@prisma'' []))])) []"]
    isPrismaAttribute_classifies [of "DataModelAttribute (Some (Attribute ''@@prisma.passthrough'' [])) []"]
    isPrismaAttribute_classifies [of "DataModelAttribute (Some (Attribute ''@prisma.passthrough'' [])) []"]
    isPrismaAttribute_classifies [of "DataModelAttribute
      (Some (Attribute ''@@allow'' [InternalAttribute None,
                                   InternalAttribute (Some (Attribute ''@@@validation'' []))])) []"]
  by simp

subsection \<open>Maps and loops that may throw\<close>

lemma mapE_Inr:
  "(\<forall>x \<in> set xs. f x = Inr (g x)) \<Longrightarrow> mapE f xs = Inr (map g xs)"
  by (induction xs) auto

lemma mapE_Inl:
  assumes "\<exists>x \<in> set xs. f x = Inl e"
    and "\<forall>x \<in> set xs. \<forall>e'. f x = Inl e' \<longrightarrow> e' = e"
  shows "mapE f xs = Inl e"
  using assms
proof (induction xs)
  case Nil
  then show ?case by simp
next
  case (Cons x xs)
  show ?case
  proof (cases "f x")
    case (Inl e')
    with Cons.prems(2) have "e' = e" by simp
    with Inl show ?thesis by simp
  next
    case (Inr y)
    with Cons.prems(1) have "\<exists>x \<in> set xs. f x = Inl e" by auto
    moreover from Cons.prems(2) have "\<forall>x \<in> set xs. \<forall>e'. f x = Inl e' \<longrightarrow> e' = e" by simp
    ultimately have "mapE f xs = Inl e" by (rule Cons.IH)
    with Inr show ?thesis by simp
  qed
qed

subsection \<open>Function calls\<close>

lemma functionCallArgValue_other:
  "(\<forall>l. v \<noteq> Literal l) \<Longrightarrow> v \<noteq> NullExpr \<Longrightarrow>
   functionCallArgValue E v = Inl (PluginError ''Function call argument must be literal or null'')"
  by (cases v) auto

lemma functionCallArgValue_Inl:
  "functionCallArgValue E v = Inl e \<Longrightarrow>
   e = PluginError ''Function call argument must be literal or null''"
  by (induction E v rule: functionCallArgValue.induct) auto

text \<open>
  C6. For an invocation whose function reference is resolved: when every argument is a
  literal or null, \<open>makeFunctionCall\<close> returns the call with each argument translated in
  order, a string literal wrapped in double quotes again, a number or boolean literal by
  its \<^verbatim>\<open>toString\<close>, and null as the token \<^verbatim>\<open>null\<close>; when some argument has any other
  shape (an array, a reference, a nested invocation, any other node), it throws the
  plugin error ``Function call argument must be literal or null''.
\<close>

theorem makeFunctionCall_arguments:
  \<open>((\<forall>a \<in> set args. (\<exists>l. arg_value a = Literal l) \<or> arg_value a = NullExpr) \<longrightarrow>
      makeFunctionCall E (Some f) args =
        Inr (PrismaFunctionCall (func_name f)
               (map (\<lambda>a. PrismaFunctionCallArg (arg_name a)
                       (case arg_value a of
                          Literal (StringLiteral s) \<Rightarrow> ''"'' @ s @ ''"''
                        | Literal (NumberLiteral n) \<Rightarrow> Number_toString E n
                        | Literal (BooleanLiteral b) \<Rightarrow> (if b then ''true'' else ''false'')
                        | _ \<Rightarrow> ''null'')) args))) \<and>
    ((\<exists>a \<in> set args. (\<forall>l. arg_value a \<noteq> Literal l) \<and> arg_value a \<noteq> NullExpr) \<longrightarrow>
      makeFunctionCall E (Some f) args =
        Inl (PluginError ''Function call argument must be literal or null''))\<close>
proof (intro conjI impI)
  assume ok: "\<forall>a \<in> set args. (\<exists>l. arg_value a = Literal l) \<or> arg_value a = NullExpr"
  let ?g = \<open>\<lambda>a. PrismaFunctionCallArg (arg_name a)
                       (case arg_value a of
                          Literal (StringLiteral s) \<Rightarrow> ''"'' @ s @ ''"''
                        | Literal (NumberLiteral n) \<Rightarrow> Number_toString E n
                        | Literal (BooleanLiteral b) \<Rightarrow> (if b then ''true'' else ''false'')
                        | _ \<Rightarrow> ''null'')\<close>
  have "\<forall>a \<in> set args. makeFunctionCallArg E a = Inr (?g a)"
  proof
    fix a assume "a \<in> set args"
    with ok have "(\<exists>l. arg_value a = Literal l) \<or> arg_value a = NullExpr" by blast
    then show "makeFunctionCallArg E a = Inr (?g a)"
      by (auto simp: makeFunctionCallArg_def split: LiteralExpr.splits)
  qed
  then have "mapE (makeFunctionCallArg E) args = Inr (map ?g args)"
    by (rule mapE_Inr)
  then show "makeFunctionCall E (Some f) args
               = Inr (PrismaFunctionCall (func_name f) (map ?g args))"
    by (simp add: makeFunctionCall_def resolved_def)
next
  let ?e = "PluginError ''Function call argument must be literal or null''"
  assume "\<exists>a \<in> set args. (\<forall>l. arg_value a \<noteq> Literal l) \<and> arg_value a \<noteq> NullExpr"
  then obtain a where a: "a \<in> set args" "\<forall>l. arg_value a \<noteq> Literal l" "arg_value a \<noteq> NullExpr"
    by blast
  then have "makeFunctionCallArg E a = Inl ?e"
    by (simp add: makeFunctionCallArg_def functionCallArgValue_other)
  with a(1) have "\<exists>a \<in> set args. makeFunctionCallArg E a = Inl ?e"
    by blast
  moreover have "\<forall>a \<in> set args. \<forall>e'. makeFunctionCallArg E a = Inl e' \<longrightarrow> e' = ?e"
    by (auto simp: makeFunctionCallArg_def split: sum.splits dest: functionCallArgValue_Inl)
  ultimately have "mapE (makeFunctionCallArg E) args = Inl ?e"
    by (rule mapE_Inl)
  then show "makeFunctionCall E (Some f) args = Inl ?e"
    by (simp add: makeFunctionCall_def resolved_def)
qed

theorem makeFunctionCall_arguments_witness:
  \<open>makeFunctionCall exampleExternals (Some (FunctionDecl ''dbgenerated''))
      [Argument None (Literal (StringLiteral ''gen_random_uuid()'')),
       Argument (Some ''n'') (Literal (NumberLiteral 1)),
       Argument None (Literal (BooleanLiteral True)),
       Argument None NullExpr]
     = Inr (PrismaFunctionCall ''dbgenerated''
              [PrismaFunctionCallArg None ''"gen_random_uuid()"'',
               PrismaFunctionCallArg (Some ''n'') ''1'',
               PrismaFunctionCallArg None ''true'',
               PrismaFunctionCallArg None ''null'']) \<and>
   makeFunctionCall exampleExternals (Some (FunctionDecl ''dbgenerated''))
      [Argument None (Literal (StringLiteral ''a'')), Argument None (ArrayExpr [])]
     = Inl (PluginError ''Function call argument must be literal or null'') \<and>
   makeFunctionCall exampleExternals (Some (FunctionDecl ''dbgenerated''))
      [Argument None (InvocationExpr (Some (FunctionDecl ''now'')) [])]
     = Inl (PluginError ''Function call argument must be literal or null'')\<close>
proof -
  let ?args1 = "[Argument None (Literal (StringLiteral ''gen_random_uuid()'')),
       Argument (Some ''n'') (Literal (NumberLiteral 1)),
       Argument None (Literal (BooleanLiteral True)),
       Argument None NullExpr]"
  let ?args2 = "[Argument None (Literal (StringLiteral ''a'')), Argument None (ArrayExpr [])]"
  let ?args3 = "[Argument None (InvocationExpr (Some (FunctionDecl ''now'')) [])]"
  have h1: "\<forall>a \<in> set ?args1. (\<exists>l. arg_value a = Literal l) \<or> arg_value a = NullExpr"
    by simp
  have h2: "\<exists>a \<in> set ?args2. (\<forall>l. arg_value a \<noteq> Literal l) \<and> arg_value a \<noteq> NullExpr"
    by simp
  have h3: "\<exists>a \<in> set ?args3. (\<forall>l. arg_value a \<noteq> Literal l) \<and> arg_value a \<noteq> NullExpr"
    by simp
  note r1 = makeFunctionCall_arguments [of ?args1 exampleExternals "FunctionDecl ''dbgenerated''",
      THEN conjunct1, THEN mp, OF h1]
  note r2 = makeFunctionCall_arguments [of ?args2 exampleExternals "FunctionDecl ''dbgenerated''",
      THEN conjunct2, THEN mp, OF h2]
  note r3 = makeFunctionCall_arguments [of ?args3 exampleExternals "FunctionDecl ''dbgenerated''",
      THEN conjunct2, THEN mp, OF h3]
  have e1: "Number_toString exampleExternals 1 = ''1''"
    by (simp add: exampleExternals_def)
  show ?thesis
    unfolding r1 r2 r3 by (simp add: e1)
qed

subsection \<open>Pass-through attributes\<close>

lemma makeFieldAttribute_passthrough:
  "attr_decl attr = Some d \<Longrightarrow> decl_name d = ''@prisma.passthrough'' \<Longrightarrow>
   makeFieldAttribute E attr =
     (case attr_args attr of
        [] \<Rightarrow> Inl (TypeError ''Cannot read properties of undefined'')
      | a # _ \<Rightarrow>
          (case getLiteral (attrarg_value a) of
             None \<Rightarrow> Inl (PluginError ''Invalid arguments for @prisma.passthrough attribute'')
           | Some text \<Rightarrow>
               if truthy text then Inr (PrismaPassThroughAttribute text)
               else Inl (PluginError ''Invalid arguments for @prisma.passthrough attribute'')))"
  by (simp add: makeFieldAttribute_def resolved_def FIELD_PASSTHROUGH_ATTR_def
        first_arg_value_def split: list.splits option.splits)

lemma generateContainerAttribute_passthrough:
  "attr_decl attr = Some d \<Longrightarrow> decl_name d = ''@@prisma.passthrough'' \<Longrightarrow>
   generateContainerAttribute E attributes attr =
     (case attr_args attr of
        [] \<Rightarrow> Inl (TypeError ''Cannot read properties of undefined'')
      | a # _ \<Rightarrow>
          (case getLiteral (attrarg_value a) of
             None \<Rightarrow> Inr attributes
           | Some text \<Rightarrow>
               if truthy text then Inr (attributes @ [PrismaPassThroughAttribute text])
               else Inr attributes))"
  by (simp add: generateContainerAttribute_def resolved_def MODEL_PASSTHROUGH_ATTR_def
        first_arg_value_def split: list.splits option.splits)

text \<open>
  C2, as the code has it. The claim gives the container-level handler the error and the
  field-level handler the silence; the code does the opposite. For a pass-through
  attribute whose first argument is present and has no truthy literal value (it is not a
  literal, or it is the empty string, zero or false): the field-level handler
  \<open>makeFieldAttribute\<close> throws the plugin error ``Invalid arguments for
  @prisma.passthrough attribute'', and the container-level handler
  \<open>generateContainerAttribute\<close> returns normally and adds no attribute.
\<close>

theorem passthrough_invalid_argument:
  "attr_decl attr = Some d \<Longrightarrow> attr_args attr = a # as \<Longrightarrow>
   (case getLiteral (attrarg_value a) of None \<Rightarrow> True | Some text \<Rightarrow> \<not> truthy text) \<Longrightarrow>
   (decl_name d = ''@prisma.passthrough'' \<longrightarrow>
      makeFieldAttribute E attr
        = Inl (PluginError ''Invalid arguments for @prisma.passthrough attribute'')) \<and>
   (decl_name d = ''@@prisma.passthrough'' \<longrightarrow>
      generateContainerAttribute E attributes attr = Inr attributes)"
  by (auto simp: makeFieldAttribute_passthrough generateContainerAttribute_passthrough
        split: option.splits)

theorem passthrough_invalid_argument_witness:
  "makeFieldAttribute exampleExternals
      (DataModelAttribute (Some (Attribute ''@prisma.passthrough'' []))
         [AttributeArg None (Literal (NumberLiteral 0))])
     = Inl (PluginError ''Invalid arguments for @prisma.passthrough attribute'') \<and>
   generateContainerAttribute exampleExternals [PrismaModelAttribute ''@@map'' []]
      (DataModelAttribute (Some (Attribute ''@@prisma.passthrough'' []))
         [AttributeArg None (ReferenceExpr (Some ''id'') [])])
     = Inr [PrismaModelAttribute ''@@map'' []]"
  using
    passthrough_invalid_argument [of
      "DataModelAttribute (Some (Attribute ''@prisma.passthrough'' []))
         [AttributeArg None (Literal (NumberLiteral 0))]"
      "Attribute ''@prisma.passthrough'' []" "AttributeArg None (Literal (NumberLiteral 0))" "[]"
      exampleExternals "[]"]
    passthrough_invalid_argument [of
      "DataModelAttribute (Some (Attribute ''@@prisma.passthrough'' []))
         [AttributeArg None (ReferenceExpr (Some ''id'') [])]"
      "Attribute ''@@prisma.passthrough'' []" "AttributeArg None (ReferenceExpr (Some ''id'') [])"
      "[]" exampleExternals "[PrismaModelAttribute ''@@map'' []]"]
  by simp

text \<open>
  The claim C2 as stated fails: with the array \<^verbatim>\<open>[]\<close> as its sole argument, which is no
  string literal, the container-level pass-through attribute raises no error and leaves
  the container's attributes as they were, and the field-level one is not skipped but
  throws.
\<close>

theorem passthrough_claim_counterexample:
  "generateContainerAttribute exampleExternals []
      (DataModelAttribute (Some (Attribute ''@@prisma.passthrough'' []))
         [AttributeArg None (ArrayExpr [])])
     = Inr [] \<and>
   makeFieldAttribute exampleExternals
      (DataModelAttribute (Some (Attribute ''@prisma.passthrough'' []))
         [AttributeArg None (ArrayExpr [])])
     = Inl (PluginError ''Invalid arguments for @prisma.passthrough attribute'')"
  by (simp add: makeFieldAttribute_passthrough generateContainerAttribute_passthrough)

text \<open>
  C9. Both pass-through handlers read \<^verbatim>\<open>attr.args[0].value\<close> unguarded. With an empty
  argument list either handler throws a \<^verbatim>\<open>TypeError\<close>, which is not the plugin error
  ``Invalid arguments for @prisma.passthrough attribute''. With a non-empty argument
  list no \<^verbatim>\<open>TypeError\<close> arises: the field-level handler returns an attribute or throws that
  plugin error, and the container-level handler returns.
\<close>

theorem passthrough_first_argument_unguarded:
  "attr_decl attr = Some d \<Longrightarrow>
   (decl_name d = ''@prisma.passthrough'' \<longrightarrow>
      (attr_args attr = [] \<longrightarrow>
         makeFieldAttribute E attr = Inl (TypeError ''Cannot read properties of undefined'')) \<and>
      (attr_args attr \<noteq> [] \<longrightarrow>
         (\<exists>r. makeFieldAttribute E attr = Inr r) \<or>
         makeFieldAttribute E attr
           = Inl (PluginError ''Invalid arguments for @prisma.passthrough attribute''))) \<and>
   (decl_name d = ''@@prisma.passthrough'' \<longrightarrow>
      (attr_args attr = [] \<longrightarrow>
         generateContainerAttribute E attributes attr
           = Inl (TypeError ''Cannot read properties of undefined'')) \<and>
      (attr_args attr \<noteq> [] \<longrightarrow>
         (\<exists>r. generateContainerAttribute E attributes attr = Inr r)))"
  by (auto simp: makeFieldAttribute_passthrough generateContainerAttribute_passthrough
        split: list.splits option.splits)

theorem passthrough_first_argument_unguarded_witness:
  "makeFieldAttribute exampleExternals
      (DataModelAttribute (Some (Attribute ''@prisma.passthrough'' [])) [])
     = Inl (TypeError ''Cannot read properties of undefined'') \<and>
   generateContainerAttribute exampleExternals []
      (DataModelAttribute (Some (Attribute ''@@prisma.passthrough'' [])) [])
     = Inl (TypeError ''Cannot read properties of undefined'')"
  using
    passthrough_first_argument_unguarded [of
      "DataModelAttribute (Some (Attribute ''@prisma.passthrough'' [])) []"
      "Attribute ''@prisma.passthrough'' []" exampleExternals "[]"]
    passthrough_first_argument_unguarded [of
      "DataModelAttribute (Some (Attribute ''@@prisma.passthrough'' [])) []"
      "Attribute ''@@prisma.passthrough'' []" exampleExternals "[]"]
  by simp

subsection \<open>Model fields\<close>

lemma resolvedFieldType_cases:
  "resolvedFieldType T =
     (case ft_type T of
        Some t \<Rightarrow> if t \<noteq> [] then Some t else
          (case ft_reference T of
             Some (Some r) \<Rightarrow> if r \<noteq> [] then Some r else getUnsupportedFieldType T
           | _ \<Rightarrow> getUnsupportedFieldType T)
      | None \<Rightarrow>
          (case ft_reference T of
             Some (Some r) \<Rightarrow> if r \<noteq> [] then Some r else getUnsupportedFieldType T
           | _ \<Rightarrow> getUnsupportedFieldType T))"
  by (simp add: resolvedFieldType_def js_or_def split: option.splits)

lemma getUnsupportedFieldType_Some:
  \<open>ft_unsupported T = Some (UnsupportedFieldType (Literal (StringLiteral v))) \<Longrightarrow> v \<noteq> [] \<Longrightarrow>
   getUnsupportedFieldType T = Some (''Unsupported("'' @ v @ ''")'')\<close>
  by (simp add: getUnsupportedFieldType_def)

lemma getStringLiteral_None:
  "(\<forall>v. e = Literal (StringLiteral v) \<longrightarrow> v = []) \<Longrightarrow>
   (case getStringLiteral e of Some v \<Rightarrow> if v \<noteq> [] then Some (f v) else None | None \<Rightarrow> None) = None"
  by (cases e rule: getStringLiteral.cases) auto

lemma getUnsupportedFieldType_None:
  "ft_unsupported T = None \<or>
   (\<exists>u. ft_unsupported T = Some u \<and> (\<forall>v. unsupported_value u = Literal (StringLiteral v) \<longrightarrow> v = []))
   \<Longrightarrow> getUnsupportedFieldType T = None"
  unfolding getUnsupportedFieldType_def
  by (auto simp: getStringLiteral_None)

lemma resolvedFieldType_nonempty: "resolvedFieldType T = Some ty \<Longrightarrow> ty \<noteq> []"
  by (auto simp: resolvedFieldType_cases getUnsupportedFieldType_def
      split: option.splits if_splits)

lemma generateModelField_resolved:
  "resolvedFieldType (field_type field) = Some ty \<Longrightarrow>
   generateModelField E model field =
     (case getAttributesToGenerate E field of
        Inl e \<Rightarrow> Inl e
      | Inr attrs \<Rightarrow>
          Inr (model\<lparr>model_fields := model_fields model @
                [PrismaModelField (field_name field)
                   (ModelFieldType ty (ft_array (field_type field)) (ft_optional (field_type field)))
                   attrs
                   (map (docComment E) (nonPrismaAttributes (field_attributes field))
                    @ field_comments field)]\<rparr>))"
  by (frule resolvedFieldType_nonempty) (simp add: generateModelField_def Let_def split: sum.splits)

lemma generateModelField_unresolved:
  "resolvedFieldType (field_type field) = None \<Longrightarrow>
   generateModelField E model field =
     Inl (PluginError (''Field type is not resolved: '' @ field_container field
                        @ ''.'' @ field_name field))"
  by (simp add: generateModelField_def)

lemma generateModelField_Inr:
  "generateModelField E model field = Inr m' \<Longrightarrow>
   \<exists>f. m' = model\<lparr>model_fields := model_fields model @ [f]\<rparr> \<and> mf_name f = field_name field
       \<and> getAttributesToGenerate E field = Inr (mf_attributes f)"
  by (cases "resolvedFieldType (field_type field)")
     (auto simp: generateModelField_resolved generateModelField_unresolved split: sum.splits)

text \<open>
  C3. \<open>generateModelField\<close> takes as the field's type the scalar type name when that is
  present and non-empty, otherwise the name of the resolved reference when non-empty,
  otherwise the escape \<^verbatim>\<open>Unsupported("...")\<close> of a non-empty string literal. With such a
  type it appends exactly one field of that type and of the source field's name to the
  model, unless translating the field's attributes throws, and then that error is the
  result. When none of the three yields a type, it throws the plugin error ``Field type
  is not resolved: container.field''. Whenever it returns, the model has gained the
  field: no field is dropped silently.
\<close>

theorem generateModelField_type:
  fixes E model field
  defines "T \<equiv> field_type field"
  defines "produced \<equiv> \<lambda>ty.
     (case getAttributesToGenerate E field of
        Inl e \<Rightarrow> Inl e
      | Inr attrs \<Rightarrow>
          Inr (model\<lparr>model_fields := model_fields model @
                [PrismaModelField (field_name field)
                   (ModelFieldType ty (ft_array T) (ft_optional T))
                   attrs
                   (map (docComment E) (nonPrismaAttributes (field_attributes field))
                    @ field_comments field)]\<rparr>))"
  defines "noType \<equiv> ft_type T = None \<or> ft_type T = Some []"
  defines "noReference \<equiv>
     ft_reference T = None \<or> ft_reference T = Some None \<or> ft_reference T = Some (Some [])"
  shows
  \<open>(\<forall>t. ft_type T = Some t \<and> t \<noteq> [] \<longrightarrow> generateModelField E model field = produced t) \<and>
   (\<forall>r. noType \<and> ft_reference T = Some (Some r) \<and> r \<noteq> [] \<longrightarrow>
      generateModelField E model field = produced r) \<and>
   (\<forall>v. noType \<and> noReference \<and>
        ft_unsupported T = Some (UnsupportedFieldType (Literal (StringLiteral v))) \<and> v \<noteq> [] \<longrightarrow>
      generateModelField E model field = produced (''Unsupported("'' @ v @ ''")'')) \<and>
   (noType \<and> noReference \<and>
      (ft_unsupported T = None \<or>
       (\<exists>u. ft_unsupported T = Some u \<and>
            (\<forall>v. unsupported_value u = Literal (StringLiteral v) \<longrightarrow> v = []))) \<longrightarrow>
      generateModelField E model field =
        Inl (PluginError (''Field type is not resolved: '' @ field_container field
                           @ ''.'' @ field_name field))) \<and>
   (\<forall>m'. generateModelField E model field = Inr m' \<longrightarrow>
      (\<exists>f. model_fields m' = model_fields model @ [f] \<and> mf_name f = field_name field))\<close>
proof (intro conjI allI impI)
  fix t assume "ft_type T = Some t \<and> t \<noteq> []"
  then have "resolvedFieldType (field_type field) = Some t"
    by (simp add: resolvedFieldType_cases T_def)
  then show "generateModelField E model field = produced t"
    unfolding produced_def T_def by (rule generateModelField_resolved)
next
  fix r assume "noType \<and> ft_reference T = Some (Some r) \<and> r \<noteq> []"
  then have "resolvedFieldType (field_type field) = Some r"
    by (auto simp: resolvedFieldType_cases T_def noType_def)
  then show "generateModelField E model field = produced r"
    unfolding produced_def T_def by (rule generateModelField_resolved)
next
  fix v
  assume a: "noType \<and> noReference \<and>
        ft_unsupported T = Some (UnsupportedFieldType (Literal (StringLiteral v))) \<and> v \<noteq> []"
  then have \<open>getUnsupportedFieldType T = Some (''Unsupported("'' @ v @ ''")'')\<close>
    by (intro getUnsupportedFieldType_Some) simp_all
  with a have \<open>resolvedFieldType (field_type field) = Some (''Unsupported("'' @ v @ ''")'')\<close>
    unfolding resolvedFieldType_cases T_def noType_def noReference_def
    by (auto simp del: append.simps)
  then show \<open>generateModelField E model field = produced (''Unsupported("'' @ v @ ''")'')\<close>
    unfolding produced_def T_def by (rule generateModelField_resolved)
next
  assume a: "noType \<and> noReference \<and>
      (ft_unsupported T = None \<or>
       (\<exists>u. ft_unsupported T = Some u \<and>
            (\<forall>v. unsupported_value u = Literal (StringLiteral v) \<longrightarrow> v = [])))"
  then have "getUnsupportedFieldType T = None"
    by (simp add: getUnsupportedFieldType_None)
  with a have "resolvedFieldType (field_type field) = None"
    by (auto simp: resolvedFieldType_cases T_def noType_def noReference_def)
  then show "generateModelField E model field =
        Inl (PluginError (''Field type is not resolved: '' @ field_container field
                           @ ''.'' @ field_name field))"
    by (rule generateModelField_unresolved)
next
  fix m' assume "generateModelField E model field = Inr m'"
  from generateModelField_Inr [OF this]
  show "\<exists>f. model_fields m' = model_fields model @ [f] \<and> mf_name f = field_name field"
    by auto
qed


theorem generateModelField_type_witness:
  "generateModelField exampleExternals (newModel ''User'' False)
      (DataModelField ''id'' (DataModelFieldType (Some ''Int'') None None False False) [] [] ''User'')
     = Inr ((newModel ''User'' False)
              \<lparr>model_fields := [PrismaModelField ''id'' (ModelFieldType ''Int'' False False) [] []]\<rparr>) \<and>
   generateModelField exampleExternals (newModel ''User'' False)
      (DataModelField ''x'' (DataModelFieldType None (Some None) None False False) [] [] ''User'')
     = Inl (PluginError ''Field type is not resolved: User.x'')"
proof -
  let ?M = "newModel ''User'' False"
  let ?F1 = "DataModelField ''id'' (DataModelFieldType (Some ''Int'') None None False False) [] [] ''User''"
  let ?F2 = "DataModelField ''x'' (DataModelFieldType None (Some None) None False False) [] [] ''User''"
  have h1: "ft_type (field_type ?F1) = Some ''Int'' \<and> ''Int'' \<noteq> []"
    by simp
  have h2: "(ft_type (field_type ?F2) = None \<or> ft_type (field_type ?F2) = Some []) \<and>
      (ft_reference (field_type ?F2) = None \<or> ft_reference (field_type ?F2) = Some None \<or>
       ft_reference (field_type ?F2) = Some (Some [])) \<and>
      (ft_unsupported (field_type ?F2) = None \<or>
       (\<exists>u. ft_unsupported (field_type ?F2) = Some u \<and>
            (\<forall>v. unsupported_value u = Literal (StringLiteral v) \<longrightarrow> v = [])))"
    by simp
  note r1 = generateModelField_type [where E = exampleExternals and model = ?M and field = ?F1,
      THEN conjunct1, THEN spec, THEN mp, OF h1]
  note r2 = generateModelField_type [where E = exampleExternals and model = ?M and field = ?F2,
      THEN conjunct2, THEN conjunct2, THEN conjunct2, THEN conjunct1, THEN mp, OF h2]
  have g: "getAttributesToGenerate exampleExternals ?F1 = Inr []"
    by (simp add: getAttributesToGenerate_def hasDefaultWithAuth_def exampleExternals_def
          exampleGetAttribute_def)
  show ?thesis
    unfolding r1 r2 g by (simp add: nonPrismaAttributes_def newModel_def)
qed

text \<open>
  \<open>streamAst\<close> lists the node itself and, with every child, all that the child's stream
  lists: every node of the subtree is in the stream.
\<close>

lemma streamAst_self: "e \<in> set (streamAst e)"
  by (cases e) simp_all

lemma streamAst_list_member: "x \<in> set es \<Longrightarrow> set (streamAst x) \<subseteq> set (streamAst_list es)"
  by (induction es) auto

lemma streamAst_args_member:
  "a \<in> set as \<Longrightarrow> set (streamAst (arg_value a)) \<subseteq> set (streamAst_args as)"
proof (induction as)
  case Nil
  then show ?case by simp
next
  case (Cons b bs)
  then show ?case by (cases b) auto
qed

lemma streamAst_children:
  "x \<in> set items \<Longrightarrow> set (streamAst x) \<subseteq> set (streamAst (ArrayExpr items))"
  "x \<in> set es \<Longrightarrow> set (streamAst x) \<subseteq> set (streamAst (OtherExpr t es))"
  "a \<in> set as \<Longrightarrow> set (streamAst (arg_value a)) \<subseteq> set (streamAst (InvocationExpr f as))"
  using streamAst_list_member streamAst_args_member by fastforce+

text \<open>
  C4. When the field's \<^verbatim>\<open>@default\<close> attribute has a first argument whose expression
  contains, at any depth, a node that \<^verbatim>\<open>isAuthInvocation\<close> accepts, the field's attributes
  to generate are the empty list, whatever other attributes the field has: the target
  field that \<open>generateModelField\<close> adds carries no attribute, and the field is generated
  whenever its type resolves.
\<close>

theorem auth_default_no_attributes:
  assumes "getAttribute E field ''@default'' = Some defaultAttr"
    and "attr_args defaultAttr = a # as"
    and "\<exists>n \<in> set (streamAst (attrarg_value a)). isAuthInvocation E n"
  shows "getAttributesToGenerate E field = Inr [] \<and>
    (\<forall>m'. generateModelField E model field = Inr m' \<longrightarrow>
       (\<exists>f. model_fields m' = model_fields model @ [f] \<and> mf_name f = field_name field
            \<and> mf_attributes f = [])) \<and>
    (\<forall>ty. resolvedFieldType (field_type field) = Some ty \<longrightarrow>
       (\<exists>m'. generateModelField E model field = Inr m'))"
proof -
  from assms have auth: "hasDefaultWithAuth E field"
    by (simp add: hasDefaultWithAuth_def list_ex_iff)
  then have g: "getAttributesToGenerate E field = Inr []"
    by (simp add: getAttributesToGenerate_def)
  have "\<exists>f. model_fields m' = model_fields model @ [f] \<and> mf_name f = field_name field
            \<and> mf_attributes f = []"
    if "generateModelField E model field = Inr m'" for m'
  proof -
    from generateModelField_Inr [OF that] obtain f where
      f: "m' = model\<lparr>model_fields := model_fields model @ [f]\<rparr>" "mf_name f = field_name field"
         "getAttributesToGenerate E field = Inr (mf_attributes f)"
      by blast
    from f(3) g have "mf_attributes f = []" by simp
    with f(1,2) show ?thesis by simp
  qed
  moreover have "\<exists>m'. generateModelField E model field = Inr m'"
    if "resolvedFieldType (field_type field) = Some ty" for ty
    using generateModelField_resolved [OF that, of E model] g by simp
  ultimately show ?thesis using g by blast
qed

theorem auth_default_no_attributes_witness:
  "generateModelField exampleExternals (newModel ''Post'' False)
      (DataModelField ''ownerId'' (DataModelFieldType (Some ''String'') None None False False)
         [DataModelAttribute
            (Some (Attribute ''@unique'' [InternalAttribute (Some (Attribute ''@@@prisma'' []))])) [],
          DataModelAttribute
            (Some (Attribute ''@default'' [InternalAttribute (Some (Attribute ''@@@prisma'' []))]))
            [AttributeArg None
               (OtherExpr ''MemberAccessExpr'' [InvocationExpr (Some (FunctionDecl ''auth'')) []])]]
         [] ''Post'')
     = Inr ((newModel ''Post'' False)
              \<lparr>model_fields :=
                 [PrismaModelField ''ownerId'' (ModelFieldType ''String'' False False) [] []]\<rparr>)"
proof -
  let ?D = "DataModelAttribute
            (Some (Attribute ''@default'' [InternalAttribute (Some (Attribute ''@@@prisma'' []))]))
            [AttributeArg None
               (OtherExpr ''MemberAccessExpr'' [InvocationExpr (Some (FunctionDecl ''auth'')) []])]"
  let ?U = "DataModelAttribute
            (Some (Attribute ''@unique'' [InternalAttribute (Some (Attribute ''@@@prisma'' []))])) []"
  let ?F = "DataModelField ''ownerId'' (DataModelFieldType (Some ''String'') None None False False)
         [?U, ?D] [] ''Post''"
  let ?a = "AttributeArg None
               (OtherExpr ''MemberAccessExpr'' [InvocationExpr (Some (FunctionDecl ''auth'')) []])"
  have h1: "getAttribute exampleExternals ?F ''@default'' = Some ?D"
    by (simp add: exampleExternals_def exampleGetAttribute_def)
  have h2: "attr_args ?D = ?a # []"
    by simp
  have h3: "\<exists>n \<in> set (streamAst (attrarg_value ?a)). isAuthInvocation exampleExternals n"
    by (simp add: exampleExternals_def)
  note r = auth_default_no_attributes [OF h1 h2 h3, of "newModel ''Post'' False", THEN conjunct1]
  have t: "resolvedFieldType (field_type ?F) = Some ''String''"
    by (simp add: resolvedFieldType_def js_or_def)
  have p: "isPrismaAttribute ?U" "isPrismaAttribute ?D"
    by (simp_all add: isPrismaAttribute_def)
  show ?thesis
    unfolding generateModelField_resolved [OF t] r
    by (simp add: nonPrismaAttributes_def newModel_def p)
qed


subsection \<open>Generators\<close>

lemma generateGenerator_not_negotiated:
  assumes "mapE (configFieldToSimple E) (gen_fields decl) = Inr fs"
    and "\<not> isClientGenerator E fs \<or> getPrismaVersion E = None \<or> getPrismaVersion E = Some []"
  shows "generateGenerator E prisma decl = Inr (prisma @ [PrismaGenerator (gen_name decl) fs])"
  using assms
  by (auto simp: generateGenerator_def isClientGenerator_def Let_def)

lemma generateGenerator_negotiated:
  assumes "mapE (configFieldToSimple E) (gen_fields decl) = Inr fs"
    and "isClientGenerator E fs"
    and "getPrismaVersion E = Some v" and "v \<noteq> []"
    and "JSON_parse E (previewFeaturesText fs) = Inr (JSArray pf)"
    and "semver_lt E v ''5.0.0'' = Inr below"
  shows "generateGenerator E prisma decl =
     (let pf' = (if below
                 then pushIfAbsent (JSString ''fieldReference'')
                        (pushIfAbsent (JSString ''extendedWhereUnique'') pf)
                 else pf)
      in Inr (prisma @ [PrismaGenerator (gen_name decl)
                 (if pf' = [] then fs
                  else withPreviewFeatures (JSON_stringify E (JSArray pf')) fs)]))"
proof -
  from assms(2) obtain z where z: "find (\<lambda>f. sf_name f = ''provider'') fs = Some z"
      "sf_text z = JSON_stringify E (JSString ''prisma-client-js'')"
    by (auto simp: isClientGenerator_def)
  show ?thesis
  proof (cases "find (\<lambda>f. sf_name f = ''previewFeatures'') fs")
    case None
    with assms(5) have p: "JSON_parse E ''[]'' = Inr (JSArray pf)"
      by (simp add: previewFeaturesText_def)
    show ?thesis
      unfolding generateGenerator_def
      by (simp add: assms(1,3,4,6) z p None Let_def withPreviewFeatures_def)
  next
    case (Some f)
    with assms(5) have p: "JSON_parse E (sf_text f) = Inr (JSArray pf)"
      by (simp add: previewFeaturesText_def)
    show ?thesis
      unfolding generateGenerator_def
      by (simp add: assms(1,3,4,6) z p Some Let_def withPreviewFeatures_def)
  qed
qed

lemma pushIfAbsent_idem: "pushIfAbsent x (pushIfAbsent x xs) = pushIfAbsent x xs"
  by (simp add: pushIfAbsent_def)

lemma pushIfAbsent_commute_mem:
  "x \<in> set (pushIfAbsent y xs) \<longleftrightarrow> x = y \<or> x \<in> set xs"
  by (auto simp: pushIfAbsent_def)

lemma negotiate_idem:
  "pushIfAbsent b (pushIfAbsent a (pushIfAbsent b (pushIfAbsent a xs)))
     = pushIfAbsent b (pushIfAbsent a xs)"
  by (simp add: pushIfAbsent_def)

lemma count_list_append: "count_list (xs @ ys) x = count_list xs x + count_list ys x"
  by (induction xs) auto

lemma count_list_0: "x \<notin> set xs \<Longrightarrow> count_list xs x = 0"
  by (induction xs) auto

lemma count_list_pos: "x \<in> set xs \<Longrightarrow> 0 < count_list xs x"
  by (induction xs) auto

lemma count_pushIfAbsent:
  "count_list (pushIfAbsent y xs) x =
     (if x = y \<and> y \<notin> set xs then 1 else count_list xs x)"
  by (auto simp: pushIfAbsent_def count_list_append count_list_0)

lemma negotiate_append:
  "a \<noteq> b \<Longrightarrow> pushIfAbsent b (pushIfAbsent a xs) = xs @ filter (\<lambda>x. x \<notin> set xs) [a, b]"
  by (auto simp: pushIfAbsent_def)


lemma pushIfAbsent_nonempty: "pushIfAbsent x xs \<noteq> []"
  by (auto simp: pushIfAbsent_def)

lemma distinct_pushIfAbsent: "distinct xs \<Longrightarrow> distinct (pushIfAbsent x xs)"
  by (simp add: pushIfAbsent_def)

lemma find_Some_decompose:
  "find P fs = Some f0 \<Longrightarrow>
   \<exists>pre post. fs = pre @ f0 # post \<and> (\<forall>g \<in> set pre. \<not> P g) \<and> P f0"
proof (induction fs)
  case Nil
  then show ?case by simp
next
  case (Cons f fs)
  show ?case
  proof (cases "P f")
    case True
    with Cons.prems have "f = f0" by simp
    with True have "f # fs = [] @ f0 # fs \<and> (\<forall>g \<in> set []. \<not> P g) \<and> P f0" by simp
    then show ?thesis by blast
  next
    case False
    with Cons.prems have "find P fs = Some f0" by simp
    from Cons.IH [OF this] obtain pre post where
      d: "fs = pre @ f0 # post" "\<forall>g \<in> set pre. \<not> P g" "P f0"
      by blast
    from d False have "f # fs = (f # pre) @ f0 # post \<and> (\<forall>g \<in> set (f # pre). \<not> P g) \<and> P f0"
      by simp
    then show ?thesis by blast
  qed
qed

lemma setFirstText_decomposed:
  "(\<forall>g \<in> set pre. sf_name g \<noteq> n) \<Longrightarrow> sf_name f0 = n \<Longrightarrow>
   setFirstText n t (pre @ f0 # post) = pre @ SimpleField n t # post"
  by (induction pre) simp_all

lemma find_name_append:
  "(\<forall>g \<in> set pre. sf_name g \<noteq> n) \<Longrightarrow> sf_name f0 = n \<Longrightarrow>
   find (\<lambda>f. sf_name f = n) (pre @ f0 # post) = Some f0"
  by (induction pre) simp_all

lemma find_name_snoc:
  "find (\<lambda>f. sf_name f = n) fs = None \<Longrightarrow>
   find (\<lambda>f. sf_name f = n) (fs @ [SimpleField n t]) = Some (SimpleField n t)"
  by (induction fs) (simp_all split: if_splits)

lemma withPreviewFeatures_absent:
  "find (\<lambda>f. sf_name f = ''previewFeatures'') fs = None \<Longrightarrow>
   withPreviewFeatures t fs = fs @ [SimpleField ''previewFeatures'' t]"
  by (simp add: withPreviewFeatures_def)

lemma withPreviewFeatures_present:
  assumes "find (\<lambda>f. sf_name f = ''previewFeatures'') fs = Some f0"
  shows "\<exists>pre post. fs = pre @ f0 # post \<and>
           (\<forall>g \<in> set pre. sf_name g \<noteq> ''previewFeatures'') \<and>
           withPreviewFeatures t fs = pre @ SimpleField ''previewFeatures'' t # post"
proof -
  from find_Some_decompose [OF assms] obtain pre post where
    d: "fs = pre @ f0 # post" "\<forall>g \<in> set pre. sf_name g \<noteq> ''previewFeatures''"
       "sf_name f0 = ''previewFeatures''"
    by blast
  have "withPreviewFeatures t fs = setFirstText ''previewFeatures'' t fs"
    using assms by (simp add: withPreviewFeatures_def)
  also have "\<dots> = pre @ SimpleField ''previewFeatures'' t # post"
    unfolding d(1) by (rule setFirstText_decomposed [OF d(2,3)])
  finally show ?thesis using d(1,2) by blast
qed

lemma previewFeaturesText_withPreviewFeatures:
  "previewFeaturesText (withPreviewFeatures t fs) = t"
proof (cases "find (\<lambda>f. sf_name f = ''previewFeatures'') fs")
  case None
  from find_name_snoc [OF None, of t] show ?thesis
    by (simp add: withPreviewFeatures_absent [OF None] previewFeaturesText_def)
next
  case (Some f0)
  from withPreviewFeatures_present [OF Some, of t] obtain pre post where
    d: "\<forall>g \<in> set pre. sf_name g \<noteq> ''previewFeatures''"
       "withPreviewFeatures t fs = pre @ SimpleField ''previewFeatures'' t # post"
    by blast
  have "find (\<lambda>f. sf_name f = ''previewFeatures'')
          (pre @ SimpleField ''previewFeatures'' t # post) = Some (SimpleField ''previewFeatures'' t)"
    by (rule find_name_append [OF d(1)]) simp
  then show ?thesis
    by (simp add: d(2) previewFeaturesText_def)
qed

text \<open>
  C7. Let the generator's configuration fields render to \<open>fs\<close>. When the provider is the
  client generator, a version is detected for which \<^verbatim>\<open>semver.lt(version, '5.0.0')\<close> holds,
  and the preview features parse to an array, the generator is added with the preview
  features set to that array with \<^verbatim>\<open>extendedWhereUnique\<close> and \<^verbatim>\<open>fieldReference\<close> appended,
  each only if absent: the entries already there stay as they are, each of the two flags
  occurs once if it was absent and as often as before otherwise, a duplicate-free array
  stays duplicate-free, and negotiating again on the resulting array changes nothing.
  When the version is not below the threshold, the array is written back as parsed, not
  augmented. When the provider is another one or no version is detected, the generator
  is added with its fields as rendered. Where the preview features are written, the
  text that the resulting generator's \<^verbatim>\<open>previewFeatures\<close> holds is the text written: it is
  the text of a new last field when the rendered fields have none of that name, and
  otherwise it replaces the text of the first field of that name, all other fields
  staying as rendered and in place.
\<close>

theorem generateGenerator_previewFeatures:
  assumes "mapE (configFieldToSimple E) (gen_fields decl) = Inr fs"
  shows
   "(\<forall>v pf. isClientGenerator E fs \<and> getPrismaVersion E = Some v \<and> v \<noteq> [] \<and>
        semver_lt E v ''5.0.0'' = Inr True \<and>
        JSON_parse E (previewFeaturesText fs) = Inr (JSArray pf) \<longrightarrow>
       (let pf' = pushIfAbsent (JSString ''fieldReference'')
                    (pushIfAbsent (JSString ''extendedWhereUnique'') pf)
        in generateGenerator E prisma decl =
             Inr (prisma @ [PrismaGenerator (gen_name decl)
                    (withPreviewFeatures (JSON_stringify E (JSArray pf')) fs)]) \<and>
           pf' = pf @ filter (\<lambda>x. x \<notin> set pf)
                        [JSString ''extendedWhereUnique'', JSString ''fieldReference''] \<and>
           count_list pf' (JSString ''extendedWhereUnique'')
             = max 1 (count_list pf (JSString ''extendedWhereUnique'')) \<and>
           count_list pf' (JSString ''fieldReference'')
             = max 1 (count_list pf (JSString ''fieldReference'')) \<and>
           (distinct pf \<longrightarrow> distinct pf') \<and>
           pushIfAbsent (JSString ''fieldReference'')
             (pushIfAbsent (JSString ''extendedWhereUnique'') pf') = pf' \<and>
           previewFeaturesText (withPreviewFeatures (JSON_stringify E (JSArray pf')) fs)
             = JSON_stringify E (JSArray pf'))) \<and>
    (\<forall>v pf. isClientGenerator E fs \<and> getPrismaVersion E = Some v \<and> v \<noteq> [] \<and>
        semver_lt E v ''5.0.0'' = Inr False \<and>
        JSON_parse E (previewFeaturesText fs) = Inr (JSArray pf) \<longrightarrow>
       generateGenerator E prisma decl =
         Inr (prisma @ [PrismaGenerator (gen_name decl)
                (if pf = [] then fs
                 else withPreviewFeatures (JSON_stringify E (JSArray pf)) fs)])) \<and>
    (\<not> isClientGenerator E fs \<or> getPrismaVersion E = None \<or> getPrismaVersion E = Some [] \<longrightarrow>
       generateGenerator E prisma decl = Inr (prisma @ [PrismaGenerator (gen_name decl) fs])) \<and>
    (\<forall>text.
       previewFeaturesText (withPreviewFeatures text fs) = text \<and>
       (find (\<lambda>f. sf_name f = ''previewFeatures'') fs = None \<longrightarrow>
          withPreviewFeatures text fs = fs @ [SimpleField ''previewFeatures'' text]) \<and>
       (\<forall>f0. find (\<lambda>f. sf_name f = ''previewFeatures'') fs = Some f0 \<longrightarrow>
          (\<exists>pre post. fs = pre @ f0 # post \<and>
             (\<forall>g \<in> set pre. sf_name g \<noteq> ''previewFeatures'') \<and>
             withPreviewFeatures text fs = pre @ SimpleField ''previewFeatures'' text # post)))"
proof (intro conjI allI impI)
  fix v pf
  assume a: "isClientGenerator E fs \<and> getPrismaVersion E = Some v \<and> v \<noteq> [] \<and>
        semver_lt E v ''5.0.0'' = Inr True \<and>
        JSON_parse E (previewFeaturesText fs) = Inr (JSArray pf)"
  let ?e = "JSString ''extendedWhereUnique''" and ?f = "JSString ''fieldReference''"
  let ?pf' = "pushIfAbsent ?f (pushIfAbsent ?e pf)"
  from a have g: "generateGenerator E prisma decl =
             Inr (prisma @ [PrismaGenerator (gen_name decl)
                    (withPreviewFeatures (JSON_stringify E (JSArray ?pf')) fs)])"
    using generateGenerator_negotiated [OF assms, of v pf True prisma]
    by (simp add: Let_def pushIfAbsent_nonempty)
  have ne: "?e \<noteq> ?f" by simp
  have ap: "?pf' = pf @ filter (\<lambda>x. x \<notin> set pf) [?e, ?f]"
    by (rule negotiate_append [OF ne])
  have c1: "count_list ?pf' ?e = max 1 (count_list pf ?e)"
    using count_list_pos [of ?e pf] by (auto simp: count_pushIfAbsent count_list_0)
  have c2: "count_list ?pf' ?f = max 1 (count_list pf ?f)"
    using count_list_pos [of ?f pf]
    by (auto simp: count_pushIfAbsent count_list_0 pushIfAbsent_commute_mem)
  have d: "distinct pf \<longrightarrow> distinct ?pf'"
    by (simp add: distinct_pushIfAbsent)
  have i: "pushIfAbsent ?f (pushIfAbsent ?e ?pf') = ?pf'"
    by (rule negotiate_idem)
  have t: "previewFeaturesText (withPreviewFeatures (JSON_stringify E (JSArray ?pf')) fs)
             = JSON_stringify E (JSArray ?pf')"
    by (rule previewFeaturesText_withPreviewFeatures)
  show "let pf' = ?pf'
        in generateGenerator E prisma decl =
             Inr (prisma @ [PrismaGenerator (gen_name decl)
                    (withPreviewFeatures (JSON_stringify E (JSArray pf')) fs)]) \<and>
           pf' = pf @ filter (\<lambda>x. x \<notin> set pf) [?e, ?f] \<and>
           count_list pf' ?e = max 1 (count_list pf ?e) \<and>
           count_list pf' ?f = max 1 (count_list pf ?f) \<and>
           (distinct pf \<longrightarrow> distinct pf') \<and>
           pushIfAbsent ?f (pushIfAbsent ?e pf') = pf' \<and>
           previewFeaturesText (withPreviewFeatures (JSON_stringify E (JSArray pf')) fs)
             = JSON_stringify E (JSArray pf')"
    unfolding Let_def using g ap c1 c2 d i t by blast
next
  fix v pf
  assume a: "isClientGenerator E fs \<and> getPrismaVersion E = Some v \<and> v \<noteq> [] \<and>
        semver_lt E v ''5.0.0'' = Inr False \<and>
        JSON_parse E (previewFeaturesText fs) = Inr (JSArray pf)"
  then show "generateGenerator E prisma decl =
         Inr (prisma @ [PrismaGenerator (gen_name decl)
                (if pf = [] then fs
                 else withPreviewFeatures (JSON_stringify E (JSArray pf)) fs)])"
    using generateGenerator_negotiated [OF assms, of v pf False prisma]
    by (simp add: Let_def)
next
  assume "\<not> isClientGenerator E fs \<or> getPrismaVersion E = None \<or> getPrismaVersion E = Some []"
  then show "generateGenerator E prisma decl = Inr (prisma @ [PrismaGenerator (gen_name decl) fs])"
    by (rule generateGenerator_not_negotiated [OF assms])
next
  fix t
  show "previewFeaturesText (withPreviewFeatures t fs) = t"
    by (rule previewFeaturesText_withPreviewFeatures)
next
  fix t
  assume "find (\<lambda>f. sf_name f = ''previewFeatures'') fs = None"
  then show "withPreviewFeatures t fs = fs @ [SimpleField ''previewFeatures'' t]"
    by (rule withPreviewFeatures_absent)
next
  fix t f0
  assume "find (\<lambda>f. sf_name f = ''previewFeatures'') fs = Some f0"
  then show "\<exists>pre post. fs = pre @ f0 # post \<and>
             (\<forall>g \<in> set pre. sf_name g \<noteq> ''previewFeatures'') \<and>
             withPreviewFeatures t fs = pre @ SimpleField ''previewFeatures'' t # post"
    by (rule withPreviewFeatures_present)
qed



theorem generateGenerator_previewFeatures_witness:
  \<open>generateGenerator exampleExternals []
      (GeneratorDecl ''client''
         [ConfigField ''provider'' (ConfigLiteral (StringLiteral ''prisma-client-js''))])
     = Inr [PrismaGenerator ''client''
              [SimpleField ''provider'' ''"prisma-client-js"'',
               SimpleField ''previewFeatures'' ''["extendedWhereUnique","fieldReference"]'']] \<and>
   generateGenerator exampleExternals []
      (GeneratorDecl ''client''
         [ConfigField ''previewFeatures''
            (ConfigArrayExpr [ConfigLiteralItem (StringLiteral ''fieldReference''),
                              ConfigLiteralItem (StringLiteral ''extendedWhereUnique'')]),
          ConfigField ''provider'' (ConfigLiteral (StringLiteral ''prisma-client-js''))])
     = Inr [PrismaGenerator ''client''
              [SimpleField ''previewFeatures'' ''["fieldReference","extendedWhereUnique"]'',
               SimpleField ''provider'' ''"prisma-client-js"'']] \<and>
   generateGenerator (exampleExternals\<lparr>getPrismaVersion := None\<rparr>) []
      (GeneratorDecl ''client''
         [ConfigField ''provider'' (ConfigLiteral (StringLiteral ''prisma-client-js''))])
     = Inr [PrismaGenerator ''client'' [SimpleField ''provider'' ''"prisma-client-js"'']] \<and>
   generateGenerator (exampleExternals\<lparr>getPrismaVersion := Some ''5.22.0''\<rparr>) []
      (GeneratorDecl ''client''
         [ConfigField ''previewFeatures''
            (ConfigArrayExpr [ConfigLiteralItem (StringLiteral ''fieldReference''),
                              ConfigLiteralItem (StringLiteral ''extendedWhereUnique'')]),
          ConfigField ''provider'' (ConfigLiteral (StringLiteral ''prisma-client-js''))])
     = Inr [PrismaGenerator ''client''
              [SimpleField ''previewFeatures'' ''["fieldReference","extendedWhereUnique"]'',
               SimpleField ''provider'' ''"prisma-client-js"'']] \<and>
   generateGenerator exampleExternals []
      (GeneratorDecl ''client''
         [ConfigField ''provider'' (ConfigLiteral (StringLiteral ''prisma-client-js'')),
          ConfigField ''previewFeatures''
            (ConfigArrayExpr [ConfigLiteralItem (StringLiteral ''metrics'')]),
          ConfigField ''output'' (ConfigLiteral (StringLiteral ''./client''))])
     = Inr [PrismaGenerator ''client''
              [SimpleField ''provider'' ''"prisma-client-js"'',
               SimpleField ''previewFeatures''
                 ''["metrics","extendedWhereUnique","fieldReference"]'',
               SimpleField ''output'' ''"./client"'']]\<close>
proof -
  let ?d5 = "GeneratorDecl ''client''
         [ConfigField ''provider'' (ConfigLiteral (StringLiteral ''prisma-client-js'')),
          ConfigField ''previewFeatures''
            (ConfigArrayExpr [ConfigLiteralItem (StringLiteral ''metrics'')]),
          ConfigField ''output'' (ConfigLiteral (StringLiteral ''./client''))]"
  let ?fs5 = \<open>[SimpleField ''provider'' ''"prisma-client-js"'',
               SimpleField ''previewFeatures'' ''["metrics"]'',
               SimpleField ''output'' ''"./client"'']\<close>
  let ?V = "exampleExternals\<lparr>getPrismaVersion := Some ''5.22.0''\<rparr>"
  let ?E = exampleExternals
  let ?N = "exampleExternals\<lparr>getPrismaVersion := None\<rparr>"
  let ?d1 = "GeneratorDecl ''client''
         [ConfigField ''provider'' (ConfigLiteral (StringLiteral ''prisma-client-js''))]"
  let ?d2 = "GeneratorDecl ''client''
         [ConfigField ''previewFeatures''
            (ConfigArrayExpr [ConfigLiteralItem (StringLiteral ''fieldReference''),
                              ConfigLiteralItem (StringLiteral ''extendedWhereUnique'')]),
          ConfigField ''provider'' (ConfigLiteral (StringLiteral ''prisma-client-js''))]"
  let ?fs1 = \<open>[SimpleField ''provider'' ''"prisma-client-js"'']\<close>
  let ?fs2 = \<open>[SimpleField ''previewFeatures'' ''["fieldReference", "extendedWhereUnique"]'',
               SimpleField ''provider'' ''"prisma-client-js"'']\<close>
  have st: \<open>JSON_stringify ?E (JSString ''prisma-client-js'') = ''"prisma-client-js"''\<close>
    by (simp add: exampleExternals_def)
  have f1: "mapE (configFieldToSimple ?E) (gen_fields ?d1) = Inr ?fs1"
    by (simp add: configFieldToSimple_def literalToText_def exampleExternals_def)
  have f2: "mapE (configFieldToSimple ?E) (gen_fields ?d2) = Inr ?fs2"
    by (simp add: configFieldToSimple_def literalToText_def configArrayToText_def
          exampleExternals_def)
  have f3: "mapE (configFieldToSimple ?N) (gen_fields ?d1) = Inr ?fs1"
    by (simp add: configFieldToSimple_def literalToText_def exampleExternals_def)
  have f4: "mapE (configFieldToSimple ?V) (gen_fields ?d2) = Inr ?fs2"
    by (simp add: configFieldToSimple_def literalToText_def configArrayToText_def
          exampleExternals_def)
  have h4: "isClientGenerator ?V ?fs2 \<and> getPrismaVersion ?V = Some ''5.22.0'' \<and> ''5.22.0'' \<noteq> [] \<and>
        semver_lt ?V ''5.22.0'' ''5.0.0'' = Inr False \<and>
        JSON_parse ?V (previewFeaturesText ?fs2)
          = Inr (JSArray [JSString ''fieldReference'', JSString ''extendedWhereUnique''])"
    by (simp add: isClientGenerator_def previewFeaturesText_def exampleExternals_def
          exampleParse_def exampleSemverLt_def)
  note r4 = generateGenerator_previewFeatures [OF f4, of "[]", THEN conjunct2, THEN conjunct1,
      THEN spec, THEN spec, THEN mp, OF h4]
  have s4: \<open>JSON_stringify ?V (JSArray [JSString ''fieldReference'', JSString ''extendedWhereUnique''])
          = ''["fieldReference","extendedWhereUnique"]''\<close>
    by (simp add: exampleExternals_def)
  have v: "getPrismaVersion ?E = Some ''4.16.2''" "semver_lt ?E ''4.16.2'' ''5.0.0'' = Inr True"
    by (simp_all add: exampleExternals_def exampleSemverLt_def)
  have c1: "isClientGenerator ?E ?fs1" and c2: "isClientGenerator ?E ?fs2"
    by (simp_all add: isClientGenerator_def st)
  have p1: "JSON_parse ?E (previewFeaturesText ?fs1) = Inr (JSArray [])"
    by (simp add: previewFeaturesText_def exampleExternals_def exampleParse_def)
  have p2: "JSON_parse ?E (previewFeaturesText ?fs2)
              = Inr (JSArray [JSString ''fieldReference'', JSString ''extendedWhereUnique''])"
    by (simp add: previewFeaturesText_def exampleExternals_def exampleParse_def)
  have h1: "isClientGenerator ?E ?fs1 \<and> getPrismaVersion ?E = Some ''4.16.2'' \<and> ''4.16.2'' \<noteq> [] \<and>
        semver_lt ?E ''4.16.2'' ''5.0.0'' = Inr True \<and>
        JSON_parse ?E (previewFeaturesText ?fs1) = Inr (JSArray [])"
    using c1 v p1 by simp
  have h2: "isClientGenerator ?E ?fs2 \<and> getPrismaVersion ?E = Some ''4.16.2'' \<and> ''4.16.2'' \<noteq> [] \<and>
        semver_lt ?E ''4.16.2'' ''5.0.0'' = Inr True \<and>
        JSON_parse ?E (previewFeaturesText ?fs2)
          = Inr (JSArray [JSString ''fieldReference'', JSString ''extendedWhereUnique''])"
    using c2 v p2 by simp
  have h3: "\<not> isClientGenerator ?N ?fs1 \<or> getPrismaVersion ?N = None \<or> getPrismaVersion ?N = Some []"
    by simp
  note r1 = generateGenerator_previewFeatures [OF f1, of "[]", THEN conjunct1, THEN spec, THEN spec,
      THEN mp, OF h1, unfolded Let_def, THEN conjunct1]
  note r2 = generateGenerator_previewFeatures [OF f2, of "[]", THEN conjunct1, THEN spec, THEN spec,
      THEN mp, OF h2, unfolded Let_def, THEN conjunct1]
  note r3 = generateGenerator_previewFeatures [OF f3, of "[]", THEN conjunct2, THEN conjunct2,
      THEN conjunct1, THEN mp, OF h3]
  have f5: "mapE (configFieldToSimple ?E) (gen_fields ?d5) = Inr ?fs5"
    by (simp add: configFieldToSimple_def literalToText_def configArrayToText_def
          exampleExternals_def)
  have c5: "isClientGenerator ?E ?fs5"
    by (simp add: isClientGenerator_def st)
  have p5: "JSON_parse ?E (previewFeaturesText ?fs5) = Inr (JSArray [JSString ''metrics''])"
    by (simp add: previewFeaturesText_def exampleExternals_def exampleParse_def)
  have h5: "isClientGenerator ?E ?fs5 \<and> getPrismaVersion ?E = Some ''4.16.2'' \<and> ''4.16.2'' \<noteq> [] \<and>
        semver_lt ?E ''4.16.2'' ''5.0.0'' = Inr True \<and>
        JSON_parse ?E (previewFeaturesText ?fs5) = Inr (JSArray [JSString ''metrics''])"
    using c5 v p5 by simp
  note r5 = generateGenerator_previewFeatures [OF f5, of "[]", THEN conjunct1, THEN spec, THEN spec,
      THEN mp, OF h5, unfolded Let_def, THEN conjunct1]
  have s5: \<open>JSON_stringify ?E (JSArray [JSString ''metrics'', JSString ''extendedWhereUnique'',
                                       JSString ''fieldReference''])
          = ''["metrics","extendedWhereUnique","fieldReference"]''\<close>
    by (simp add: exampleExternals_def)
  have s1: \<open>JSON_stringify ?E (JSArray [JSString ''extendedWhereUnique'', JSString ''fieldReference''])
          = ''["extendedWhereUnique","fieldReference"]''\<close>
    by (simp add: exampleExternals_def)
  have s2: \<open>JSON_stringify ?E (JSArray [JSString ''fieldReference'', JSString ''extendedWhereUnique''])
          = ''["fieldReference","extendedWhereUnique"]''\<close>
    by (simp add: exampleExternals_def)
  show ?thesis
    unfolding r1 r2 r3 r4 r5
    by (simp add: pushIfAbsent_def withPreviewFeatures_def s1 s2 s4 s5)
qed

subsection \<open>Models and enums\<close>

lemma generateContainerAttribute_Inr:
  assumes "generateContainerAttribute E acc a = Inr res"
  shows "res = acc @ containerAttributeOf E a \<and>
         (if silentPassThrough a then containerAttributeOf E a = []
          else \<exists>t. containerAttributeOf E a = [t])"
proof (cases "attr_decl a")
  case None
  with assms show ?thesis by (simp add: generateContainerAttribute_def resolved_def)
next
  case (Some d)
  show ?thesis
  proof (cases "decl_name d = ''@@prisma.passthrough''")
    case True
    from assms show ?thesis
      unfolding generateContainerAttribute_passthrough [OF Some True]
      by (auto simp: containerAttributeOf_def silentPassThrough_def Some True
          split: list.splits option.splits if_splits)
  next
    case False
    with assms Some show ?thesis
      by (auto simp: generateContainerAttribute_def resolved_def MODEL_PASSTHROUGH_ATTR_def
          containerAttributeOf_def silentPassThrough_def split: sum.splits)
  qed
qed

lemma foldE_generateContainerAttribute:
  "foldE (generateContainerAttribute E) acc as = Inr res \<Longrightarrow>
   res = acc @ concat (map (containerAttributeOf E) as) \<and>
   list_all2 (\<lambda>a t. containerAttributeOf E a = [t])
     (filter (\<lambda>a. \<not> silentPassThrough a) as) (concat (map (containerAttributeOf E) as))"
proof (induction as arbitrary: acc)
  case Nil
  then show ?case by simp
next
  case (Cons a as)
  from Cons.prems obtain mid where
    mid: "generateContainerAttribute E acc a = Inr mid"
      "foldE (generateContainerAttribute E) mid as = Inr res"
    by (auto split: sum.splits)
  note one = generateContainerAttribute_Inr [OF mid(1)]
  note rest = Cons.IH [OF mid(2)]
  show ?case
  proof (cases "silentPassThrough a")
    case True
    with one rest show ?thesis by simp
  next
    case False
    with one obtain t where "containerAttributeOf E a = [t]" by auto
    with one rest False show ?thesis by simp
  qed
qed

lemma foldE_generateModelField:
  "foldE (generateModelField E) m fs = Inr m' \<Longrightarrow>
   \<exists>new. m' = m\<lparr>model_fields := model_fields m @ new\<rparr> \<and> map mf_name new = map field_name fs"
proof (induction fs arbitrary: m)
  case Nil
  then show ?case by simp
next
  case (Cons f fs)
  from Cons.prems obtain mid where
    mid: "generateModelField E m f = Inr mid" "foldE (generateModelField E) mid fs = Inr m'"
    by (auto split: sum.splits)
  from generateModelField_Inr [OF mid(1)] obtain pf where
    pf: "mid = m\<lparr>model_fields := model_fields m @ [pf]\<rparr>" "mf_name pf = field_name f"
    by blast
  from Cons.IH [OF mid(2)] obtain new where
    new: "m' = mid\<lparr>model_fields := model_fields mid @ new\<rparr>" "map mf_name new = map field_name fs"
    by blast
  have "m' = m\<lparr>model_fields := model_fields m @ (pf # new)\<rparr>"
    using pf(1) new(1) by simp
  moreover have "map mf_name (pf # new) = map field_name (f # fs)"
    using pf(2) new(2) by simp
  ultimately show ?case by blast
qed

lemma generateEnumField_Inr:
  "generateEnumField E en f = Inr en' \<Longrightarrow>
   \<exists>pf. en' = en\<lparr>enum_fields := enum_fields en @ [pf]\<rparr> \<and> pef_name pf = ef_name f"
  by (auto simp: generateEnumField_def Let_def split: sum.splits)

lemma foldE_generateEnumField:
  "foldE (generateEnumField E) en fs = Inr en' \<Longrightarrow>
   \<exists>new. en' = en\<lparr>enum_fields := enum_fields en @ new\<rparr> \<and> map pef_name new = map ef_name fs"
proof (induction fs arbitrary: en)
  case Nil
  then show ?case by simp
next
  case (Cons f fs)
  from Cons.prems obtain mid where
    mid: "generateEnumField E en f = Inr mid" "foldE (generateEnumField E) mid fs = Inr en'"
    by (auto split: sum.splits)
  from generateEnumField_Inr [OF mid(1)] obtain pf where
    pf: "mid = en\<lparr>enum_fields := enum_fields en @ [pf]\<rparr>" "pef_name pf = ef_name f"
    by blast
  from Cons.IH [OF mid(2)] obtain new where
    new: "en' = mid\<lparr>enum_fields := enum_fields mid @ new\<rparr>" "map pef_name new = map ef_name fs"
    by blast
  have "en' = en\<lparr>enum_fields := enum_fields en @ (pf # new)\<rparr>"
    using pf(1) new(1) by simp
  moreover have "map pef_name (pf # new) = map ef_name (f # fs)"
    using pf(2) new(2) by simp
  ultimately show ?case by blast
qed

lemma generateModel_Inr:
  assumes "generateModel E prisma decl = Inr prisma'"
  shows "\<exists>m. prisma' = prisma @ [PrismaModelDeclaration m] \<and>
     model_name m = dm_name decl \<and> model_isView m = dm_isView decl \<and>
     map mf_name (model_fields m) = map field_name (dm_fields decl) \<and>
     model_attributes m
       = concat (map (containerAttributeOf E) (filter isPrismaAttribute (dm_attributes decl))) \<and>
     list_all2 (\<lambda>a t. containerAttributeOf E a = [t])
       (filter (\<lambda>a. isPrismaAttribute a \<and> \<not> silentPassThrough a) (dm_attributes decl))
       (model_attributes m) \<and>
     model_comments m
       = map (docComment E) (nonPrismaAttributes (dm_attributes decl)) @ dm_comments decl"
proof -
  let ?m0 = "newModel (dm_name decl) (dm_isView decl)"
  let ?as = "filter isPrismaAttribute (dm_attributes decl)"
  from assms obtain m1 attrs where
    m1: "foldE (generateModelField E) ?m0 (dm_fields decl) = Inr m1"
    and at: "foldE (generateContainerAttribute E) (model_attributes m1) ?as = Inr attrs"
    and res: "prisma' = prisma @ [PrismaModelDeclaration
                (m1\<lparr>model_attributes := attrs,
                    model_comments := model_comments m1
                      @ map (docComment E) (nonPrismaAttributes (dm_attributes decl))
                      @ dm_comments decl\<rparr>)]"
    by (auto simp: generateModel_def split: sum.splits)
  from foldE_generateModelField [OF m1] obtain new where
    new: "m1 = ?m0\<lparr>model_fields := model_fields ?m0 @ new\<rparr>"
      "map mf_name new = map field_name (dm_fields decl)"
    by blast
  from new(1) have m1_parts: "model_name m1 = dm_name decl" "model_isView m1 = dm_isView decl"
      "model_fields m1 = new" "model_attributes m1 = []" "model_comments m1 = []"
    by (simp_all add: newModel_def)
  from foldE_generateContainerAttribute [OF at] m1_parts(4) have
    a1: "attrs = concat (map (containerAttributeOf E) ?as)"
    and a2: "list_all2 (\<lambda>a t. containerAttributeOf E a = [t])
       (filter (\<lambda>a. \<not> silentPassThrough a) ?as) (concat (map (containerAttributeOf E) ?as))"
    by simp_all
  have ff: "filter (\<lambda>a. \<not> silentPassThrough a) ?as
            = filter (\<lambda>a. isPrismaAttribute a \<and> \<not> silentPassThrough a) (dm_attributes decl)"
    by (simp add: conj_commute)
  show ?thesis
    using res m1_parts new(2) a1 a2 [unfolded ff] by simp
qed

lemma generateEnum_Inr:
  assumes "generateEnum E prisma decl = Inr prisma'"
  shows "\<exists>e. prisma' = prisma @ [PrismaEnumDeclaration e] \<and>
     enum_name e = en_name decl \<and>
     map pef_name (enum_fields e) = map ef_name (en_fields decl) \<and>
     enum_attributes e
       = concat (map (containerAttributeOf E) (filter isPrismaAttribute (en_attributes decl))) \<and>
     list_all2 (\<lambda>a t. containerAttributeOf E a = [t])
       (filter (\<lambda>a. isPrismaAttribute a \<and> \<not> silentPassThrough a) (en_attributes decl))
       (enum_attributes e) \<and>
     enum_comments e
       = map (docComment E) (nonPrismaAttributes (en_attributes decl)) @ en_comments decl"
proof -
  let ?e0 = "newEnum (en_name decl)"
  let ?as = "filter isPrismaAttribute (en_attributes decl)"
  from assms obtain e1 attrs where
    e1: "foldE (generateEnumField E) ?e0 (en_fields decl) = Inr e1"
    and at: "foldE (generateContainerAttribute E) (enum_attributes e1) ?as = Inr attrs"
    and res: "prisma' = prisma @ [PrismaEnumDeclaration
                (e1\<lparr>enum_attributes := attrs,
                    enum_comments := enum_comments e1
                      @ map (docComment E) (nonPrismaAttributes (en_attributes decl))
                      @ en_comments decl\<rparr>)]"
    by (auto simp: generateEnum_def split: sum.splits)
  from foldE_generateEnumField [OF e1] obtain new where
    new: "e1 = ?e0\<lparr>enum_fields := enum_fields ?e0 @ new\<rparr>"
      "map pef_name new = map ef_name (en_fields decl)"
    by blast
  from new(1) have e1_parts: "enum_name e1 = en_name decl"
      "enum_fields e1 = new" "enum_attributes e1 = []" "enum_comments e1 = []"
    by (simp_all add: newEnum_def)
  from foldE_generateContainerAttribute [OF at] e1_parts(3) have
    a1: "attrs = concat (map (containerAttributeOf E) ?as)"
    and a2: "list_all2 (\<lambda>a t. containerAttributeOf E a = [t])
       (filter (\<lambda>a. \<not> silentPassThrough a) ?as) (concat (map (containerAttributeOf E) ?as))"
    by simp_all
  have ff: "filter (\<lambda>a. \<not> silentPassThrough a) ?as
            = filter (\<lambda>a. isPrismaAttribute a \<and> \<not> silentPassThrough a) (en_attributes decl)"
    by (simp add: conj_commute)
  show ?thesis
    using res e1_parts new(2) a1 a2 [unfolded ff] by simp
qed

text \<open>
  C5, as the code has it. When a model or an enum is generated without error: its
  comment lines are one \<^verbatim>\<open>///\<close> line, the ZModel rendering of the attribute after
  \<^verbatim>\<open>'/// '\<close>, for each attribute whose declaration is resolved and which the classifier
  marks non-emittable, in source order, followed by the author's comments verbatim (an
  attribute whose declaration is unresolved yields neither a comment nor an attribute);
  and its container attributes correspond one to one, in source order, to the attributes
  the classifier marks emittable, except the \<^verbatim>\<open>@@prisma.passthrough\<close> attributes whose first
  argument has no truthy literal value, which yield nothing. So an attribute is emitted
  only if the classifier marks it emittable, but not every emittable attribute is
  emitted.
\<close>

theorem container_attributes_and_comments:
  "(\<forall>prisma'. generateModel E prisma decl = Inr prisma' \<longrightarrow>
      (\<exists>m. prisma' = prisma @ [PrismaModelDeclaration m] \<and>
           model_comments m
             = map (\<lambda>a. ''/// '' @ zModelGenerate E a)
                   (filter (\<lambda>a. attr_decl a \<noteq> None \<and> \<not> isPrismaAttribute a) (dm_attributes decl))
               @ dm_comments decl \<and>
           list_all2 (\<lambda>a t. containerAttributeOf E a = [t])
             (filter (\<lambda>a. isPrismaAttribute a \<and> \<not> silentPassThrough a) (dm_attributes decl))
             (model_attributes m))) \<and>
   (\<forall>prisma'. generateEnum E prisma en = Inr prisma' \<longrightarrow>
      (\<exists>e. prisma' = prisma @ [PrismaEnumDeclaration e] \<and>
           enum_comments e
             = map (\<lambda>a. ''/// '' @ zModelGenerate E a)
                   (filter (\<lambda>a. attr_decl a \<noteq> None \<and> \<not> isPrismaAttribute a) (en_attributes en))
               @ en_comments en \<and>
           list_all2 (\<lambda>a t. containerAttributeOf E a = [t])
             (filter (\<lambda>a. isPrismaAttribute a \<and> \<not> silentPassThrough a) (en_attributes en))
             (enum_attributes e)))"
proof (intro conjI allI impI)
  fix prisma' assume "generateModel E prisma decl = Inr prisma'"
  from generateModel_Inr [OF this] obtain m where
    m: "prisma' = prisma @ [PrismaModelDeclaration m]"
      "model_comments m
         = map (docComment E) (nonPrismaAttributes (dm_attributes decl)) @ dm_comments decl"
      "list_all2 (\<lambda>a t. containerAttributeOf E a = [t])
         (filter (\<lambda>a. isPrismaAttribute a \<and> \<not> silentPassThrough a) (dm_attributes decl))
         (model_attributes m)"
    by blast
  have eq: "map (docComment E) (nonPrismaAttributes (dm_attributes decl))
          = map (\<lambda>a. ''/// '' @ zModelGenerate E a)
              (filter (\<lambda>a. attr_decl a \<noteq> None \<and> \<not> isPrismaAttribute a) (dm_attributes decl))"
    by (simp add: nonPrismaAttributes_def docComment_def)
  from m(1) m(2) [unfolded eq] m(3) show "\<exists>m. prisma' = prisma @ [PrismaModelDeclaration m] \<and>
           model_comments m
             = map (\<lambda>a. ''/// '' @ zModelGenerate E a)
                   (filter (\<lambda>a. attr_decl a \<noteq> None \<and> \<not> isPrismaAttribute a) (dm_attributes decl))
               @ dm_comments decl \<and>
           list_all2 (\<lambda>a t. containerAttributeOf E a = [t])
             (filter (\<lambda>a. isPrismaAttribute a \<and> \<not> silentPassThrough a) (dm_attributes decl))
             (model_attributes m)"
    by blast
next
  fix prisma' assume "generateEnum E prisma en = Inr prisma'"
  from generateEnum_Inr [OF this] obtain e where
    e: "prisma' = prisma @ [PrismaEnumDeclaration e]"
      "enum_comments e
         = map (docComment E) (nonPrismaAttributes (en_attributes en)) @ en_comments en"
      "list_all2 (\<lambda>a t. containerAttributeOf E a = [t])
         (filter (\<lambda>a. isPrismaAttribute a \<and> \<not> silentPassThrough a) (en_attributes en))
         (enum_attributes e)"
    by blast
  have eq: "map (docComment E) (nonPrismaAttributes (en_attributes en))
          = map (\<lambda>a. ''/// '' @ zModelGenerate E a)
              (filter (\<lambda>a. attr_decl a \<noteq> None \<and> \<not> isPrismaAttribute a) (en_attributes en))"
    by (simp add: nonPrismaAttributes_def docComment_def)
  from e(1) e(2) [unfolded eq] e(3) show "\<exists>e. prisma' = prisma @ [PrismaEnumDeclaration e] \<and>
           enum_comments e
             = map (\<lambda>a. ''/// '' @ zModelGenerate E a)
                   (filter (\<lambda>a. attr_decl a \<noteq> None \<and> \<not> isPrismaAttribute a) (en_attributes en))
               @ en_comments en \<and>
           list_all2 (\<lambda>a t. containerAttributeOf E a = [t])
             (filter (\<lambda>a. isPrismaAttribute a \<and> \<not> silentPassThrough a) (en_attributes en))
             (enum_attributes e)"
    by blast
qed

lemma example_generateModel:
  "generateModel exampleExternals prisma
     (DataModel ''User''
        [DataModelField ''id'' (DataModelFieldType (Some ''Int'') None None False False)
           [DataModelAttribute
              (Some (Attribute ''@id'' [InternalAttribute (Some (Attribute ''@@@prisma'' []))])) []]
           [] ''User'']
        [DataModelAttribute (Some (Attribute ''@@allow'' [])) [],
         DataModelAttribute
           (Some (Attribute ''@@map'' [InternalAttribute (Some (Attribute ''@@@prisma'' []))]))
           [AttributeArg None (Literal (StringLiteral ''users''))],
         DataModelAttribute None [],
         DataModelAttribute (Some (Attribute ''@@prisma.passthrough'' []))
           [AttributeArg None (Literal (StringLiteral ''@@index([id])''))]]
        [''// accounts''] False)
     = Inr (prisma @ [PrismaModelDeclaration
              \<lparr>model_name = ''User'', model_isView = False,
               model_fields =
                 [PrismaModelField ''id'' (ModelFieldType ''Int'' False False)
                    [PrismaFieldAttribute ''@id'' []] []],
               model_attributes =
                 [PrismaModelAttribute ''@@map'' [PrismaAttributeArg None (AV_String ''users'')],
                  PrismaPassThroughAttribute (JSString ''@@index([id])'')],
               model_comments = [''/// @@allow'', ''// accounts'']\<rparr>])"
  by (simp add: generateModel_def newModel_def generateModelField_def resolvedFieldType_def
        js_or_def getAttributesToGenerate_def hasDefaultWithAuth_def exampleExternals_def
        exampleGetAttribute_def exampleGenerate_def isPrismaAttribute_def makeFieldAttribute_def
        resolved_def FIELD_PASSTHROUGH_ATTR_def MODEL_PASSTHROUGH_ATTR_def
        generateContainerAttribute_def first_arg_value_def makeAttributeArg_def
        nonPrismaAttributes_def docComment_def Let_def)

theorem container_attributes_and_comments_witness:
  "\<exists>m. generateModel exampleExternals []
     (DataModel ''User''
        [DataModelField ''id'' (DataModelFieldType (Some ''Int'') None None False False)
           [DataModelAttribute
              (Some (Attribute ''@id'' [InternalAttribute (Some (Attribute ''@@@prisma'' []))])) []]
           [] ''User'']
        [DataModelAttribute (Some (Attribute ''@@allow'' [])) [],
         DataModelAttribute
           (Some (Attribute ''@@map'' [InternalAttribute (Some (Attribute ''@@@prisma'' []))]))
           [AttributeArg None (Literal (StringLiteral ''users''))],
         DataModelAttribute None [],
         DataModelAttribute (Some (Attribute ''@@prisma.passthrough'' []))
           [AttributeArg None (Literal (StringLiteral ''@@index([id])''))]]
        [''// accounts''] False) = Inr [PrismaModelDeclaration m] \<and>
     model_comments m = [''/// @@allow'', ''// accounts''] \<and>
     length (model_attributes m) = 2"
proof -
  let ?allow = "DataModelAttribute (Some (Attribute ''@@allow'' [])) []"
  let ?map = "DataModelAttribute
           (Some (Attribute ''@@map'' [InternalAttribute (Some (Attribute ''@@@prisma'' []))]))
           [AttributeArg None (Literal (StringLiteral ''users''))]"
  let ?unres = "DataModelAttribute None []"
  let ?pt = "DataModelAttribute (Some (Attribute ''@@prisma.passthrough'' []))
           [AttributeArg None (Literal (StringLiteral ''@@index([id])''))]"
  let ?D = "DataModel ''User''
        [DataModelField ''id'' (DataModelFieldType (Some ''Int'') None None False False)
           [DataModelAttribute
              (Some (Attribute ''@id'' [InternalAttribute (Some (Attribute ''@@@prisma'' []))])) []]
           [] ''User'']
        [?allow, ?map, ?unres, ?pt] [''// accounts''] False"
  obtain P where g: "generateModel exampleExternals [] ?D = Inr P"
    using example_generateModel [of "[]"] by blast
  from container_attributes_and_comments [of exampleExternals "[]" ?D, THEN conjunct1,
      THEN spec, THEN mp, OF g]
  obtain m where m: "P = [] @ [PrismaModelDeclaration m]"
    "model_comments m
       = map (\<lambda>a. ''/// '' @ zModelGenerate exampleExternals a)
           (filter (\<lambda>a. attr_decl a \<noteq> None \<and> \<not> isPrismaAttribute a) (dm_attributes ?D))
         @ dm_comments ?D"
    "list_all2 (\<lambda>a t. containerAttributeOf exampleExternals a = [t])
       (filter (\<lambda>a. isPrismaAttribute a \<and> \<not> silentPassThrough a) (dm_attributes ?D))
       (model_attributes m)"
    by blast
  have p: "\<not> isPrismaAttribute ?allow" "isPrismaAttribute ?map" "\<not> isPrismaAttribute ?unres"
    "isPrismaAttribute ?pt"
    by (simp_all add: isPrismaAttribute_def MODEL_PASSTHROUGH_ATTR_def FIELD_PASSTHROUGH_ATTR_def)
  have s: "\<not> silentPassThrough ?map" "\<not> silentPassThrough ?pt"
    by (simp_all add: silentPassThrough_def)
  have z: "zModelGenerate exampleExternals ?allow = ''@@allow''"
    by (simp add: exampleExternals_def exampleGenerate_def)
  from m(2) have c: "model_comments m = [''/// @@allow'', ''// accounts'']"
    by (simp add: p z)
  from list_all2_lengthD [OF m(3)] have "length (model_attributes m) = 2"
    by (simp add: p s)
  with g m(1) c show ?thesis by simp
qed

text \<open>
  The claim C5 as stated fails in ``emitted if and only if emittable'': the attribute
  \<^verbatim>\<open>@@prisma.passthrough("")\<close>, with the empty string as its text, is classified
  emittable, and the model generated for its declaration has no attribute and no comment.
\<close>

theorem emittable_attribute_not_emitted_counterexample:
  "isPrismaAttribute
     (DataModelAttribute (Some (Attribute ''@@prisma.passthrough'' []))
        [AttributeArg None (Literal (StringLiteral []))]) \<and>
   generateModel exampleExternals []
     (DataModel ''Post'' []
        [DataModelAttribute (Some (Attribute ''@@prisma.passthrough'' []))
           [AttributeArg None (Literal (StringLiteral []))]]
        [] False)
     = Inr [PrismaModelDeclaration
              \<lparr>model_name = ''Post'', model_isView = False, model_fields = [],
               model_attributes = [], model_comments = []\<rparr>]"
  by code_simp

subsection \<open>The driver\<close>

lemma mapE_configFieldToSimple_names:
  "mapE (configFieldToSimple E) cfs = Inr fs \<Longrightarrow> map sf_name fs = map cf_name cfs"
proof (induction cfs arbitrary: fs)
  case Nil
  then show ?case by simp
next
  case (Cons c cfs)
  from Cons.prems obtain f rest where
    f: "configFieldToSimple E c = Inr f" and rest: "mapE (configFieldToSimple E) cfs = Inr rest"
    and fs: "fs = f # rest"
    by (auto split: sum.splits)
  from f have "sf_name f = cf_name c"
    by (auto simp: configFieldToSimple_def split: sum.splits)
  with Cons.IH [OF rest] fs show ?case by simp
qed

lemma generateDataSource_Inr:
  "generateDataSource E prisma d = Inr prisma' \<Longrightarrow>
   \<exists>fs. prisma' = prisma @ [PrismaDataSource (ds_name d) fs] \<and>
        map sf_name fs = map cf_name (ds_fields d)"
  by (auto simp: generateDataSource_def mapE_configFieldToSimple_names split: sum.splits)

lemma setFirstText_names: "map sf_name (setFirstText n t fs) = map sf_name fs"
  by (induction fs) auto

lemma withPreviewFeatures_names:
  "map sf_name (withPreviewFeatures t fs) = map sf_name fs \<or>
   map sf_name (withPreviewFeatures t fs) = map sf_name fs @ [''previewFeatures'']"
  by (simp add: withPreviewFeatures_def setFirstText_names split: option.splits)

lemma generateGenerator_client:
  assumes "mapE (configFieldToSimple E) (gen_fields decl) = Inr fs"
    and "isClientGenerator E fs"
    and "getPrismaVersion E = Some v" and "v \<noteq> []"
  shows \<open>generateGenerator E prisma decl =
     (case JSON_parse E (previewFeaturesText fs) of
        Inl e \<Rightarrow> Inl e
      | Inr (JSArray pf) \<Rightarrow>
          (case semver_lt E v ''5.0.0'' of
             Inl e \<Rightarrow> Inl e
           | Inr below \<Rightarrow>
               (let pf' = (if below
                           then pushIfAbsent (JSString ''fieldReference'')
                                  (pushIfAbsent (JSString ''extendedWhereUnique'') pf)
                           else pf)
                in Inr (prisma @ [PrismaGenerator (gen_name decl)
                           (if pf' = [] then fs
                            else withPreviewFeatures (JSON_stringify E (JSArray pf')) fs)])))
      | Inr _ \<Rightarrow> Inl (PluginError ''option "previewFeatures" must be an array''))\<close>
proof (cases "JSON_parse E (previewFeaturesText fs)")
  case (Inl e)
  from assms(2) obtain z where z: "find (\<lambda>f. sf_name f = ''provider'') fs = Some z"
      "sf_text z = JSON_stringify E (JSString ''prisma-client-js'')"
    by (auto simp: isClientGenerator_def)
  from Inl have p: "JSON_parse E
                     (case find (\<lambda>f. sf_name f = ''previewFeatures'') fs of
                        Some f \<Rightarrow> sf_text f
                      | None \<Rightarrow> ''[]'') = Inl e"
    by (simp add: previewFeaturesText_def)
  show ?thesis
    unfolding generateGenerator_def Inl
    by (simp add: assms(1,3,4) z p)
next
  case (Inr parsed)
  from assms(2) obtain z where z: "find (\<lambda>f. sf_name f = ''provider'') fs = Some z"
      "sf_text z = JSON_stringify E (JSString ''prisma-client-js'')"
    by (auto simp: isClientGenerator_def)
  from Inr have p: "JSON_parse E
                     (case find (\<lambda>f. sf_name f = ''previewFeatures'') fs of
                        Some f \<Rightarrow> sf_text f
                      | None \<Rightarrow> ''[]'') = Inr parsed"
    by (simp add: previewFeaturesText_def)
  show ?thesis
  proof (cases "\<exists>pf. parsed = JSArray pf")
    case True
    then obtain pf where pf: "parsed = JSArray pf" by blast
    show ?thesis
    proof (cases "semver_lt E v ''5.0.0''")
      case (Inl e)
      show ?thesis
        unfolding generateGenerator_def Inr pf
        by (simp add: assms(1,3,4) z p [unfolded pf] Inl)
    next
      case (Inr below)
      from generateGenerator_negotiated [OF assms \<open>JSON_parse E (previewFeaturesText fs) = Inr parsed\<close> [unfolded pf] Inr]
      show ?thesis
        by (simp add: \<open>JSON_parse E (previewFeaturesText fs) = Inr parsed\<close> pf Inr)
    qed
  next
    case False
    then show ?thesis
      unfolding generateGenerator_def Inr
      by (cases parsed) (simp_all add: assms(1,3,4) z p)
  qed
qed

lemma generateGenerator_Inr:
  assumes "generateGenerator E prisma decl = Inr prisma'"
  shows "\<exists>fs. prisma' = prisma @ [PrismaGenerator (gen_name decl) fs] \<and>
     (map sf_name fs = map cf_name (gen_fields decl) \<or>
      map sf_name fs = map cf_name (gen_fields decl) @ [''previewFeatures''])"
proof -
  from assms obtain fs0 where fs0: "mapE (configFieldToSimple E) (gen_fields decl) = Inr fs0"
    by (cases "mapE (configFieldToSimple E) (gen_fields decl)")
       (simp_all add: generateGenerator_def)
  note names = mapE_configFieldToSimple_names [OF fs0]
  show ?thesis
  proof (cases "\<not> isClientGenerator E fs0 \<or> getPrismaVersion E = None \<or> getPrismaVersion E = Some []")
    case True
    from generateGenerator_not_negotiated [OF fs0 True, of prisma] assms
    have "prisma' = prisma @ [PrismaGenerator (gen_name decl) fs0]" by simp
    with names show ?thesis by blast
  next
    case False
    then obtain v where v: "isClientGenerator E fs0" "getPrismaVersion E = Some v" "v \<noteq> []"
      by auto
    note c = generateGenerator_client [OF fs0 v, of prisma]
    show ?thesis
    proof (cases "JSON_parse E (previewFeaturesText fs0)")
      case (Inl e)
      with c assms show ?thesis by simp
    next
      case (Inr parsed)
      show ?thesis
      proof (cases "\<exists>pf. parsed = JSArray pf")
        case True
        then obtain pf where pf: "parsed = JSArray pf" by blast
        show ?thesis
        proof (cases "semver_lt E v ''5.0.0''")
          case (Inl e)
          with c assms Inr pf show ?thesis by simp
        next
          case below: (Inr below)
          let ?pf' = "if below
                then pushIfAbsent (JSString ''fieldReference'')
                       (pushIfAbsent (JSString ''extendedWhereUnique'') pf)
                else pf"
          let ?fs = "if ?pf' = [] then fs0
                     else withPreviewFeatures (JSON_stringify E (JSArray ?pf')) fs0"
          from c assms Inr pf below
          have p: "prisma' = prisma @ [PrismaGenerator (gen_name decl) ?fs]"
            by (simp add: Let_def)
          have "map sf_name ?fs = map sf_name fs0 \<or>
                map sf_name ?fs = map sf_name fs0 @ [''previewFeatures'']"
            using withPreviewFeatures_names [of "JSON_stringify E (JSArray ?pf')" fs0]
            by (cases "?pf' = []") simp_all
          with names p show ?thesis by metis
        qed
      next
        case False
        with c assms Inr show ?thesis by (cases parsed) simp_all
      qed
    qed
  qed
qed

lemma generateDeclaration_Inr:
  assumes "generateDeclaration E prisma d = Inr prisma'"
  shows "if handledDeclaration d then \<exists>t. prisma' = prisma @ [t] \<and> corresponds E d t
         else prisma' = prisma"
proof (cases d)
  case (DataSourceDeclaration x)
  with assms have "generateDataSource E prisma x = Inr prisma'" by simp
  from generateDataSource_Inr [OF this] obtain fs where
    "prisma' = prisma @ [PrismaDataSource (ds_name x) fs]"
    "map sf_name fs = map cf_name (ds_fields x)"
    by blast
  then have "prisma' = prisma @ [PrismaDataSource (ds_name x) fs] \<and>
             corresponds E d (PrismaDataSource (ds_name x) fs)"
    by (simp add: DataSourceDeclaration)
  then show ?thesis unfolding DataSourceDeclaration by (simp only: handledDeclaration.simps if_True) blast
next
  case (EnumDeclaration x)
  with assms have "generateEnum E prisma x = Inr prisma'" by simp
  from generateEnum_Inr [OF this] obtain e where
    "prisma' = prisma @ [PrismaEnumDeclaration e]" "enum_name e = en_name x"
    "map pef_name (enum_fields e) = map ef_name (en_fields x)"
    "enum_attributes e
       = concat (map (containerAttributeOf E) (filter isPrismaAttribute (en_attributes x)))"
    by blast
  then have "prisma' = prisma @ [PrismaEnumDeclaration e] \<and>
             corresponds E (EnumDeclaration x) (PrismaEnumDeclaration e)"
    by simp
  then show ?thesis unfolding EnumDeclaration by (simp only: handledDeclaration.simps if_True) blast
next
  case (DataModelDeclaration x)
  with assms have "generateModel E prisma x = Inr prisma'" by simp
  from generateModel_Inr [OF this] obtain m where
    "prisma' = prisma @ [PrismaModelDeclaration m]" "model_name m = dm_name x"
    "model_isView m = dm_isView x"
    "map mf_name (model_fields m) = map field_name (dm_fields x)"
    "model_attributes m
       = concat (map (containerAttributeOf E) (filter isPrismaAttribute (dm_attributes x)))"
    by blast
  then have "prisma' = prisma @ [PrismaModelDeclaration m] \<and>
             corresponds E (DataModelDeclaration x) (PrismaModelDeclaration m)"
    by simp
  then show ?thesis unfolding DataModelDeclaration by (simp only: handledDeclaration.simps if_True) blast
next
  case (GeneratorDeclaration x)
  with assms have "generateGenerator E prisma x = Inr prisma'" by simp
  from generateGenerator_Inr [OF this] obtain fs where
    "prisma' = prisma @ [PrismaGenerator (gen_name x) fs]"
    "map sf_name fs = map cf_name (gen_fields x) \<or>
     map sf_name fs = map cf_name (gen_fields x) @ [''previewFeatures'']"
    by blast
  then have "prisma' = prisma @ [PrismaGenerator (gen_name x) fs] \<and>
             corresponds E (GeneratorDeclaration x) (PrismaGenerator (gen_name x) fs)"
    by simp
  then show ?thesis unfolding GeneratorDeclaration by (simp only: handledDeclaration.simps if_True) blast
next
  case (OtherDeclaration x)
  with assms show ?thesis by simp
qed

lemma foldE_generateDeclaration:
  "foldE (generateDeclaration E) prisma ds = Inr prisma' \<Longrightarrow>
   \<exists>new. prisma' = prisma @ new \<and>
         list_all2 (corresponds E) (filter handledDeclaration ds) new"
proof (induction ds arbitrary: prisma)
  case Nil
  then show ?case by simp
next
  case (Cons d ds)
  from Cons.prems obtain mid where
    mid: "generateDeclaration E prisma d = Inr mid"
      "foldE (generateDeclaration E) mid ds = Inr prisma'"
    by (auto split: sum.splits)
  from Cons.IH [OF mid(2)] obtain new where
    new: "prisma' = mid @ new" "list_all2 (corresponds E) (filter handledDeclaration ds) new"
    by blast
  show ?case
  proof (cases "handledDeclaration d")
    case True
    with generateDeclaration_Inr [OF mid(1)] obtain t where
      t: "mid = prisma @ [t]" "corresponds E d t"
      by auto
    have "prisma' = prisma @ (t # new)"
      using t(1) new(1) by simp
    moreover have "list_all2 (corresponds E) (filter handledDeclaration (d # ds)) (t # new)"
      using True t(2) new(2) by simp
    ultimately show ?thesis by blast
  next
    case False
    with generateDeclaration_Inr [OF mid(1)] have "mid = prisma" by simp
    with new False show ?thesis by auto
  qed
qed

text \<open>
  C8. When \<open>generate\<close> returns the target document, its declarations correspond one to
  one, in order, to the source declarations of the four kinds the driver handles (data
  sources, enums, models and views, generators): each target declaration has the kind
  and name of its source declaration, a model's or enum's fields have the source fields'
  names in the source order, and its container attributes are those of the emittable
  source attributes in the source order. Nothing is reordered, sorted or deduplicated.
\<close>

theorem generate_preserves_order:
  assumes "generate E model = Inr (warnings, prisma)"
  shows "list_all2 (corresponds E) (filter handledDeclaration (declarations model)) prisma"
proof -
  from assms have "foldE (generateDeclaration E) [] (declarations model) = Inr prisma"
    by (auto simp: generate_def split: sum.splits)
  from foldE_generateDeclaration [OF this] show ?thesis
    by simp
qed

lemma example_generateEnum:
  "generateEnum exampleExternals prisma
     (Enum ''Role'' [EnumField ''ADMIN'' [], EnumField ''USER'' []] [] [])
     = Inr (prisma @ [PrismaEnumDeclaration
              \<lparr>enum_name = ''Role'',
               enum_fields = [PrismaEnumField ''ADMIN'' [] [], PrismaEnumField ''USER'' [] []],
               enum_attributes = [], enum_comments = []\<rparr>])"
  by (simp add: generateEnum_def newEnum_def generateEnumField_def nonPrismaAttributes_def)

lemma example_generateDataSource:
  \<open>generateDataSource exampleExternals prisma
     (DataSource ''db'' [ConfigField ''provider'' (ConfigLiteral (StringLiteral ''postgresql''))])
     = Inr (prisma @ [PrismaDataSource ''db'' [SimpleField ''provider'' ''"postgresql"'']])\<close>
  by (simp add: generateDataSource_def configFieldToSimple_def literalToText_def
        exampleExternals_def)

lemma example_generateGenerator:
  \<open>generateGenerator exampleExternals prisma
      (GeneratorDecl ''client''
         [ConfigField ''provider'' (ConfigLiteral (StringLiteral ''prisma-client-js''))])
     = Inr (prisma @ [PrismaGenerator ''client''
              [SimpleField ''provider'' ''"prisma-client-js"'',
               SimpleField ''previewFeatures'' ''["extendedWhereUnique","fieldReference"]'']])\<close>
proof -
  let ?E = exampleExternals
  let ?d = "GeneratorDecl ''client''
         [ConfigField ''provider'' (ConfigLiteral (StringLiteral ''prisma-client-js''))]"
  let ?fs = \<open>[SimpleField ''provider'' ''"prisma-client-js"'']\<close>
  have f: "mapE (configFieldToSimple ?E) (gen_fields ?d) = Inr ?fs"
    by (simp add: configFieldToSimple_def literalToText_def exampleExternals_def)
  have c: "isClientGenerator ?E ?fs"
    by (simp add: isClientGenerator_def exampleExternals_def)
  have v: "getPrismaVersion ?E = Some ''4.16.2''" "''4.16.2'' \<noteq> []"
    "semver_lt ?E ''4.16.2'' ''5.0.0'' = Inr True"
    by (simp_all add: exampleExternals_def exampleSemverLt_def)
  have p: "JSON_parse ?E (previewFeaturesText ?fs) = Inr (JSArray [])"
    by (simp add: previewFeaturesText_def exampleExternals_def exampleParse_def)
  have s: \<open>JSON_stringify ?E (JSArray [JSString ''extendedWhereUnique'', JSString ''fieldReference''])
          = ''["extendedWhereUnique","fieldReference"]''\<close>
    by (simp add: exampleExternals_def)
  show ?thesis
    unfolding generateGenerator_negotiated [OF f c v(1,2) p v(3)]
    by (simp add: pushIfAbsent_def withPreviewFeatures_def s)
qed

theorem generate_preserves_order_witness:
  \<open>generate exampleExternals
     (Model
        [DataSourceDeclaration
           (DataSource ''db'' [ConfigField ''provider'' (ConfigLiteral (StringLiteral ''postgresql''))]),
         OtherDeclaration ''Plugin'',
         DataModelDeclaration
           (DataModel ''User''
              [DataModelField ''id'' (DataModelFieldType (Some ''Int'') None None False False)
                 [DataModelAttribute
                    (Some (Attribute ''@id'' [InternalAttribute (Some (Attribute ''@@@prisma'' []))])) []]
                 [] ''User'']
              [DataModelAttribute (Some (Attribute ''@@allow'' [])) [],
               DataModelAttribute
                 (Some (Attribute ''@@map'' [InternalAttribute (Some (Attribute ''@@@prisma'' []))]))
                 [AttributeArg None (Literal (StringLiteral ''users''))],
               DataModelAttribute None [],
               DataModelAttribute (Some (Attribute ''@@prisma.passthrough'' []))
                 [AttributeArg None (Literal (StringLiteral ''@@index([id])''))]]
              [''// accounts''] False),
         EnumDeclaration (Enum ''Role'' [EnumField ''ADMIN'' [], EnumField ''USER'' []] [] []),
         GeneratorDeclaration
           (GeneratorDecl ''client''
              [ConfigField ''provider'' (ConfigLiteral (StringLiteral ''prisma-client-js''))])])
    = Inr ([],
          [PrismaDataSource ''db'' [SimpleField ''provider'' ''"postgresql"''],
           PrismaModelDeclaration
              \<lparr>model_name = ''User'', model_isView = False,
               model_fields =
                 [PrismaModelField ''id'' (ModelFieldType ''Int'' False False)
                    [PrismaFieldAttribute ''@id'' []] []],
               model_attributes =
                 [PrismaModelAttribute ''@@map'' [PrismaAttributeArg None (AV_String ''users'')],
                  PrismaPassThroughAttribute (JSString ''@@index([id])'')],
               model_comments = [''/// @@allow'', ''// accounts'']\<rparr>,
           PrismaEnumDeclaration
              \<lparr>enum_name = ''Role'',
               enum_fields = [PrismaEnumField ''ADMIN'' [] [], PrismaEnumField ''USER'' [] []],
               enum_attributes = [], enum_comments = []\<rparr>,
           PrismaGenerator ''client''
              [SimpleField ''provider'' ''"prisma-client-js"'',
               SimpleField ''previewFeatures'' ''["extendedWhereUnique","fieldReference"]'']]) \<and>
   list_all2 (corresponds exampleExternals)
     [DataSourceDeclaration
           (DataSource ''db'' [ConfigField ''provider'' (ConfigLiteral (StringLiteral ''postgresql''))]),
      DataModelDeclaration
           (DataModel ''User''
              [DataModelField ''id'' (DataModelFieldType (Some ''Int'') None None False False)
                 [DataModelAttribute
                    (Some (Attribute ''@id'' [InternalAttribute (Some (Attribute ''@@@prisma'' []))])) []]
                 [] ''User'']
              [DataModelAttribute (Some (Attribute ''@@allow'' [])) [],
               DataModelAttribute
                 (Some (Attribute ''@@map'' [InternalAttribute (Some (Attribute ''@@@prisma'' []))]))
                 [AttributeArg None (Literal (StringLiteral ''users''))],
               DataModelAttribute None [],
               DataModelAttribute (Some (Attribute ''@@prisma.passthrough'' []))
                 [AttributeArg None (Literal (StringLiteral ''@@index([id])''))]]
              [''// accounts''] False),
      EnumDeclaration (Enum ''Role'' [EnumField ''ADMIN'' [], EnumField ''USER'' []] [] []),
      GeneratorDeclaration
           (GeneratorDecl ''client''
              [ConfigField ''provider'' (ConfigLiteral (StringLiteral ''prisma-client-js''))])]
     [PrismaDataSource ''db'' [SimpleField ''provider'' ''"postgresql"''],
           PrismaModelDeclaration
              \<lparr>model_name = ''User'', model_isView = False,
               model_fields =
                 [PrismaModelField ''id'' (ModelFieldType ''Int'' False False)
                    [PrismaFieldAttribute ''@id'' []] []],
               model_attributes =
                 [PrismaModelAttribute ''@@map'' [PrismaAttributeArg None (AV_String ''users'')],
                  PrismaPassThroughAttribute (JSString ''@@index([id])'')],
               model_comments = [''/// @@allow'', ''// accounts'']\<rparr>,
           PrismaEnumDeclaration
              \<lparr>enum_name = ''Role'',
               enum_fields = [PrismaEnumField ''ADMIN'' [] [], PrismaEnumField ''USER'' [] []],
               enum_attributes = [], enum_comments = []\<rparr>,
           PrismaGenerator ''client''
              [SimpleField ''provider'' ''"prisma-client-js"'',
               SimpleField ''previewFeatures'' ''["extendedWhereUnique","fieldReference"]'']]\<close>
  (is "generate ?E ?M = Inr ([], ?P) \<and> list_all2 _ ?S ?P")
proof -
  have v: "getPrismaVersion ?E = Some ''4.16.2''"
    "semver_lt ?E ''4.16.2'' (PRISMA_MINIMUM_VERSION ?E) = Inr False"
    by (simp_all add: exampleExternals_def exampleSemverLt_def)
  have g: "generate ?E ?M = Inr ([], ?P)"
    by (simp add: generate_def v example_generateDataSource example_generateModel
          example_generateEnum example_generateGenerator)
  have f: "filter handledDeclaration (declarations ?M) = ?S"
    by simp
  from generate_preserves_order [OF g] have "list_all2 (corresponds ?E) ?S ?P"
    unfolding f .
  with g show ?thesis by (rule conjI)
qed

subsection \<open>Id fields\<close>

text \<open>
  C10. With \<^verbatim>\<open>throwIfNotFound = false\<close>, \<open>getIdFields\<close> never throws and returns exactly
  the fields of the model's table whose \<open>isId\<close> is set, in table order (the empty list
  when the metadata has no table for the model). It throws if and only if
  \<^verbatim>\<open>throwIfNotFound\<close> is true and the model's table is absent or has no field with
  \<open>isId\<close> set.
\<close>

theorem getIdFields_spec:
  "getIdFields modelMeta model False =
     Inr (case meta_fields modelMeta (lowerCaseFirst model) of
            None \<Rightarrow> []
          | Some fs \<Rightarrow> filter isId (map snd fs)) \<and>
   ((\<exists>e. getIdFields modelMeta model throwIfNotFound = Inl e) \<longleftrightarrow>
      throwIfNotFound \<and>
      (case meta_fields modelMeta (lowerCaseFirst model) of
         None \<Rightarrow> True
       | Some fs \<Rightarrow> \<not> (\<exists>f \<in> set (map snd fs). isId f)))"
  by (auto simp: getIdFields_def Object_values_def filter_empty_conv split: option.splits)

end
